theory Spec2Isabelle
  imports Complex_Main "HOL-Library.AList"
begin

section \<open>Shared data model\<close>

text \<open>
  Instants (JavaScript \<open>Date\<close> values) are integers: milliseconds since the epoch,
  the value of \<open>getTime()\<close>. Ratios that the source computes in floating point are
  rationals here; the literal \<open>Infinity\<close> of the source is the value \<open>None\<close> of
  an option.
\<close>

datatype ContactStatus = ACTIVE | BOUNCED | COMPLAINED | SUPPRESSED

datatype HygieneRiskLevel = LOW | MEDIUM | HIGH

section \<open>Hygiene risk scorer (src/lib/hygiene.ts)\<close>

record Suppression =
  sup_contactId :: string
  sup_reason :: string
  sup_source :: string
  sup_notes :: string

record HygieneComputationInput =
  in_id :: string
  in_status :: ContactStatus
  in_tags :: "string list"
  in_lastEventAt :: "int option"
  in_lastMessageSentAt :: "int option"
  in_propensity :: "rat option"
  in_suppressions :: "Suppression list"

record HygieneComputationResult =
  res_contactId :: string
  res_riskLevel :: HygieneRiskLevel
  res_score :: rat
  res_reasons :: "string list"
  res_shouldSuppress :: bool

definition HYGIENE_SUPPRESSION_REASON :: string where
  "HYGIENE_SUPPRESSION_REASON = ''hygiene-risk''"

definition STALE_EVENT_THRESHOLD_DAYS :: rat where
  "STALE_EVENT_THRESHOLD_DAYS = 60"

definition STALE_SEND_THRESHOLD_DAYS :: rat where
  "STALE_SEND_THRESHOLD_DAYS = 90"

definition LOW_PROPENSITY_THRESHOLD :: rat where
  "LOW_PROPENSITY_THRESHOLD = 15 / 100"

text \<open>\<open>last ? (now.getTime() - last.getTime()) / msPerDay : Infinity\<close>; \<open>None\<close> is Infinity.\<close>

definition daysSince :: "int \<Rightarrow> int option \<Rightarrow> rat option" where
  "daysSince now previous =
     (case previous of
        None \<Rightarrow> None
      | Some t \<Rightarrow> Some (of_int (now - t) / of_int (24 * 60 * 60 * 1000)))"

text \<open>The comparisons \<open>d > limit\<close> and \<open>d < limit\<close> where \<open>d\<close> may be Infinity.\<close>

definition daysGreater :: "rat option \<Rightarrow> rat \<Rightarrow> bool" where
  "daysGreater d limit = (case d of None \<Rightarrow> True | Some x \<Rightarrow> x > limit)"

definition daysLess :: "rat option \<Rightarrow> rat \<Rightarrow> bool" where
  "daysLess d limit = (case d of None \<Rightarrow> False | Some x \<Rightarrow> x < limit)"

definition computeHygieneScore :: "HygieneComputationInput \<Rightarrow> int \<Rightarrow> HygieneComputationResult" where
  "computeHygieneScore input now =
     (let r0 = \<lparr> res_contactId = in_id input, res_riskLevel = LOW, res_score = 20,
                 res_reasons = [], res_shouldSuppress = False \<rparr>;
          propensityValue = (case in_propensity input of None \<Rightarrow> 0 | Some p \<Rightarrow> p);
          r1 = (if in_status input = BOUNCED then
                  r0 \<lparr> res_riskLevel := HIGH, res_score := 95,
                       res_reasons := res_reasons r0 @ [''Hard bounce detected''],
                       res_shouldSuppress := True \<rparr>
                else if in_status input = COMPLAINED then
                  r0 \<lparr> res_riskLevel := HIGH, res_score := 98,
                       res_reasons := res_reasons r0 @ [''Complaint reported''],
                       res_shouldSuppress := True \<rparr>
                else if in_status input = SUPPRESSED then
                  r0 \<lparr> res_riskLevel := HIGH, res_score := 90,
                       res_reasons := res_reasons r0 @ [''Contact already suppressed''],
                       res_shouldSuppress := True \<rparr>
                else r0);
          daysSinceEvent = daysSince now (in_lastEventAt input);
          daysSinceSend = daysSince now (in_lastMessageSentAt input);
          r2 = (if res_riskLevel r1 \<noteq> HIGH then
                  (let a = (if daysGreater daysSinceSend STALE_SEND_THRESHOLD_DAYS then
                              r1 \<lparr> res_riskLevel := MEDIUM,
                                   res_score := max (res_score r1) 65,
                                   res_reasons := res_reasons r1 @ [''No sends in last 90 days''] \<rparr>
                            else r1);
                       b = (if daysGreater daysSinceEvent STALE_EVENT_THRESHOLD_DAYS then
                              a \<lparr> res_riskLevel :=
                                     (if res_riskLevel a = LOW then MEDIUM else res_riskLevel a),
                                  res_score := max (res_score a) 55,
                                  res_reasons :=
                                     res_reasons a @ [''No engagement events in last 60 days''] \<rparr>
                            else a);
                       c = (if propensityValue > 0 \<and> propensityValue < LOW_PROPENSITY_THRESHOLD then
                              b \<lparr> res_riskLevel :=
                                     (if res_riskLevel b = LOW then MEDIUM else res_riskLevel b),
                                  res_score := max (res_score b) 50,
                                  res_reasons := res_reasons b @ [''Low propensity segment''] \<rparr>
                            else b);
                       d = (if res_riskLevel c = LOW
                               \<and> propensityValue \<ge> LOW_PROPENSITY_THRESHOLD
                               \<and> daysLess daysSinceEvent STALE_EVENT_THRESHOLD_DAYS then
                              c \<lparr> res_score := 25,
                                  res_reasons := res_reasons c @ [''Healthy engagement''] \<rparr>
                            else c)
                   in d)
                else r1);
          r3 = (if res_riskLevel r2 = HIGH \<and> ''synthetic'' \<in> set (in_tags input) then
                  r2 \<lparr> res_shouldSuppress := False,
                       res_reasons := res_reasons r2 @ [''Synthetic contact safeguard''] \<rparr>
                else r2)
      in r3)"


section \<open>The relational store and the process state\<close>

datatype MessageStatus = MSG_PENDING | MSG_SCHEDULED | MSG_SENT | MSG_FAILED

datatype FlowRunStatus = PENDING | WAITING | COMPLETED | CANCELLED | FAILED

datatype FlowStepType = TRIGGER | DELAY | SEGMENT_FILTER | SEND_TEMPLATE

text \<open>A JSON value (\<open>Prisma.JsonValue\<close>); an object is a list of its entries.\<close>

datatype Json = JNull | JBool bool | JNum rat | JStr string | JArr "Json list"
  | JObj "(string \<times> Json) list"

record Contact =
  c_id :: string
  c_email :: string
  c_status :: ContactStatus
  c_tags :: "string list"
  c_timezone :: "string option"
  c_lastEventAt :: "int option"
  c_lastMessageSentAt :: "int option"
  c_propensity :: "rat option"
  c_hygieneRiskLevel :: HygieneRiskLevel
  c_hygieneScore :: "rat option"

record HygieneEvaluation =
  ev_contactId :: string
  ev_riskLevel :: HygieneRiskLevel
  ev_score :: rat
  ev_suppressed :: bool
  ev_reasons :: "string list"

text \<open>A message row together with the click instant of its outcome row, when it has one.\<close>

record Message =
  msg_contactId :: string
  msg_templateId :: string
  msg_resendMessageId :: "string option"
  msg_status :: MessageStatus
  msg_scheduledSendAt :: "int option"
  msg_sentAt :: "int option"
  msg_flowRunId :: "string option"
  msg_outcomeClickedAt :: "int option"

record Histogram =
  sends :: "nat list"
  clicks :: "nat list"

record Histograms =
  global :: Histogram
  segments :: "(string \<times> Histogram) list"

record HistogramCache =
  cache_data :: Histograms
  cache_fetchedAt :: int

text \<open>A score is a JavaScript number that may be \<open>-Infinity\<close>, which is \<open>None\<close>.\<close>

record OptimizerDecision =
  dec_contactId :: string
  dec_recommendedHour :: nat
  dec_score :: "rat option"
  dec_baselineScore :: rat
  dec_segment :: string
  dec_usedSegmentHistogram :: bool
  dec_generatedAt :: int
  dec_throttled :: bool
  dec_recommendedAt :: "int option"

record Step =
  step_order :: int
  step_type :: FlowStepType
  step_config :: "Json option"

record Flow =
  flow_id :: string
  flow_steps :: "Step list"
  flow_delayMinutes :: "int option"
  flow_useOptimizer :: bool
  flow_segmentId :: "string option"
  flow_templateId :: string
  flow_templateSubject :: string
  flow_templateHtml :: string

record FlowRun =
  run_id :: string
  run_flowId :: string
  run_contactId :: string
  run_status :: FlowRunStatus
  run_nextStepOrder :: int
  run_scheduledAt :: int
  run_completedAt :: "int option"
  run_cancelledReason :: "string option"

record World =
  w_contacts :: "Contact list"
  w_suppressions :: "Suppression list"
  w_evaluations :: "HygieneEvaluation list"
  w_messages :: "Message list"
  w_decisions :: "OptimizerDecision list"
  w_flows :: "Flow list"
  w_flowRuns :: "FlowRun list"
  w_memberships :: "(string \<times> string) list"
  w_histogramCache :: "HistogramCache option"

section \<open>Hygiene sweep (src/lib/hygiene.ts, runHygieneSweep)\<close>

record HygieneSweepOptions =
  opt_suppressHighRisk :: "bool option"
  opt_limit :: "nat option"
  opt_now :: "int option"

record HygieneSweepSummary =
  sum_evaluated :: nat
  sum_highRisk :: nat
  sum_mediumRisk :: nat
  sum_lowRisk :: nat
  sum_suppressionsCreated :: nat
  sum_contactsSuppressed :: nat

text \<open>\<open>updateData\<close>: the keys of a contact update that are set.\<close>

record ContactUpdateInput =
  upd_hygieneRiskLevel :: "HygieneRiskLevel option"
  upd_hygieneScore :: "rat option"
  upd_status :: "ContactStatus option"

text \<open>The local variables of the sweep that its loop accumulates.\<close>

record SweepAcc =
  evaluationRows :: "HygieneEvaluation list"
  suppressionRows :: "Suppression list"
  contactUpdates :: "(string \<times> ContactUpdateInput) list"
  highRisk :: nat
  mediumRisk :: nat
  lowRisk :: nat
  suppressionsCreated :: nat
  contactsSuppressed :: nat

definition hasKeys :: "ContactUpdateInput \<Rightarrow> bool" where
  "hasKeys u = (upd_hygieneRiskLevel u \<noteq> None \<or> upd_hygieneScore u \<noteq> None \<or> upd_status u \<noteq> None)"

text \<open>
  The body of the loop over the selected contacts. \<open>sups\<close> is the suppression table the
  query read, from which \<open>contact.suppressions\<close> is the rows of this contact.
\<close>

definition sweepContact ::
  "HygieneSweepOptions \<Rightarrow> int \<Rightarrow> Suppression list \<Rightarrow> Contact \<Rightarrow> SweepAcc \<Rightarrow> SweepAcc" where
  "sweepContact options now sups contact acc =
     (let contactSuppressions = filter (\<lambda>s. sup_contactId s = c_id contact) sups;
          result = computeHygieneScore
                     \<lparr> in_id = c_id contact, in_status = c_status contact, in_tags = c_tags contact,
                       in_lastEventAt = c_lastEventAt contact,
                       in_lastMessageSentAt = c_lastMessageSentAt contact,
                       in_propensity = c_propensity contact,
                       in_suppressions = contactSuppressions \<rparr> now;
          acc1 = (if res_riskLevel result = HIGH then acc \<lparr> highRisk := highRisk acc + 1 \<rparr>
                  else if res_riskLevel result = MEDIUM then acc \<lparr> mediumRisk := mediumRisk acc + 1 \<rparr>
                  else acc \<lparr> lowRisk := lowRisk acc + 1 \<rparr>);
          acc2 = acc1 \<lparr> evaluationRows := evaluationRows acc1 @
                   [\<lparr> ev_contactId = c_id contact, ev_riskLevel = res_riskLevel result,
                      ev_score = res_score result,
                      ev_suppressed = (res_shouldSuppress result
                                        \<and> opt_suppressHighRisk options \<noteq> Some False),
                      ev_reasons = res_reasons result \<rparr>] \<rparr>;
          needsRiskUpdate =
            (c_hygieneRiskLevel contact \<noteq> res_riskLevel result
             \<or> \<bar>(case c_hygieneScore contact of None \<Rightarrow> 0 | Some v \<Rightarrow> v) - res_score result\<bar>
                 > 1 / 1000);
          updateData0 = \<lparr> upd_hygieneRiskLevel = None, upd_hygieneScore = None, upd_status = None \<rparr>;
          updateData1 = (if needsRiskUpdate then
                           updateData0 \<lparr> upd_hygieneRiskLevel := Some (res_riskLevel result),
                                         upd_hygieneScore := Some (res_score result) \<rparr>
                         else updateData0);
          shouldApplySuppression =
            (res_riskLevel result = HIGH
             \<and> opt_suppressHighRisk options \<noteq> Some False
             \<and> ''synthetic'' \<notin> set (c_tags contact));
          alreadySuppressed = (c_status contact = SUPPRESSED);
          hasSuppression = (\<exists>entry \<in> set contactSuppressions.
                               sup_reason entry = HYGIENE_SUPPRESSION_REASON);
          updateData2 = (if shouldApplySuppression \<and> \<not> alreadySuppressed then
                           updateData1 \<lparr> upd_status := Some SUPPRESSED \<rparr>
                         else updateData1);
          acc3 = (if shouldApplySuppression \<and> \<not> alreadySuppressed then
                    acc2 \<lparr> contactsSuppressed := contactsSuppressed acc2 + 1 \<rparr>
                  else acc2);
          acc4 = (if shouldApplySuppression \<and> \<not> hasSuppression then
                    acc3 \<lparr> suppressionRows := suppressionRows acc3 @
                             [\<lparr> sup_contactId = c_id contact,
                                sup_reason = HYGIENE_SUPPRESSION_REASON,
                                sup_source = ''system'',
                                sup_notes = ''Auto-suppressed due to hygiene risk'' \<rparr>],
                           suppressionsCreated := suppressionsCreated acc3 + 1 \<rparr>
                  else acc3);
          acc5 = (if hasKeys updateData2 then
                    acc4 \<lparr> contactUpdates := contactUpdates acc4 @ [(c_id contact, updateData2)] \<rparr>
                  else acc4)
      in acc5)"

fun sweepLoop ::
  "HygieneSweepOptions \<Rightarrow> int \<Rightarrow> Suppression list \<Rightarrow> Contact list \<Rightarrow> SweepAcc \<Rightarrow> SweepAcc" where
  "sweepLoop options now sups [] acc = acc"
| "sweepLoop options now sups (contact # rest) acc =
     sweepLoop options now sups rest (sweepContact options now sups contact acc)"

text \<open>\<open>tx.contact.update({ where: { id }, data })\<close>: the keys that are set overwrite the row.\<close>

definition applyUpdateData :: "ContactUpdateInput \<Rightarrow> Contact \<Rightarrow> Contact" where
  "applyUpdateData u c =
     (let c1 = (case upd_hygieneRiskLevel u of None \<Rightarrow> c | Some r \<Rightarrow> c \<lparr> c_hygieneRiskLevel := r \<rparr>);
          c2 = (case upd_hygieneScore u of None \<Rightarrow> c1 | Some v \<Rightarrow> c1 \<lparr> c_hygieneScore := Some v \<rparr>);
          c3 = (case upd_status u of None \<Rightarrow> c2 | Some st \<Rightarrow> c2 \<lparr> c_status := st \<rparr>)
      in c3)"

definition contactUpdate :: "Contact list \<Rightarrow> string \<times> ContactUpdateInput \<Rightarrow> Contact list" where
  "contactUpdate cs u = map (\<lambda>c. if c_id c = fst u then applyUpdateData (snd u) c else c) cs"

text \<open>\<open>take: options.limit\<close>; an undefined limit selects every contact.\<close>

definition takeLimit :: "nat option \<Rightarrow> 'a list \<Rightarrow> 'a list" where
  "takeLimit limit xs = (case limit of None \<Rightarrow> xs | Some n \<Rightarrow> take n xs)"

text \<open>\<open>clock\<close> is the value of \<open>new Date()\<close>, read when \<open>options.now\<close> is unset.\<close>

definition runHygieneSweep :: "HygieneSweepOptions \<Rightarrow> int \<Rightarrow> World \<Rightarrow> HygieneSweepSummary \<times> World" where
  "runHygieneSweep options clock w =
     (let now = (case opt_now options of None \<Rightarrow> clock | Some t \<Rightarrow> t);
          contacts = takeLimit (opt_limit options) (w_contacts w)
      in if length contacts = 0 then
           (\<lparr> sum_evaluated = 0, sum_highRisk = 0, sum_mediumRisk = 0, sum_lowRisk = 0,
              sum_suppressionsCreated = 0, sum_contactsSuppressed = 0 \<rparr>, w)
         else
           (let acc = sweepLoop options now (w_suppressions w) contacts
                        \<lparr> evaluationRows = [], suppressionRows = [], contactUpdates = [],
                          highRisk = 0, mediumRisk = 0, lowRisk = 0,
                          suppressionsCreated = 0, contactsSuppressed = 0 \<rparr>;
                w1 = (if length (evaluationRows acc) > 0 then
                        w \<lparr> w_evaluations := w_evaluations w @ evaluationRows acc \<rparr>
                      else w);
                w2 = w1 \<lparr> w_contacts := foldl contactUpdate (w_contacts w1) (contactUpdates acc) \<rparr>;
                w3 = (if length (suppressionRows acc) > 0 then
                        w2 \<lparr> w_suppressions := w_suppressions w2 @ suppressionRows acc \<rparr>
                      else w2)
            in (\<lparr> sum_evaluated = length contacts, sum_highRisk = highRisk acc,
                  sum_mediumRisk = mediumRisk acc, sum_lowRisk = lowRisk acc,
                  sum_suppressionsCreated = suppressionsCreated acc,
                  sum_contactsSuppressed = contactsSuppressed acc \<rparr>, w3)))"

text \<open>Repeated invocations, each with its own options and clock reading.\<close>

fun runHygieneSweeps :: "(HygieneSweepOptions \<times> int) list \<Rightarrow> World \<Rightarrow> World" where
  "runHygieneSweeps [] w = w"
| "runHygieneSweeps (oc # rest) w = runHygieneSweeps rest (snd (runHygieneSweep (fst oc) (snd oc) w))"

text \<open>The number of suppression rows of a contact with the reason "hygiene-risk".\<close>

definition hygieneRows :: "string \<Rightarrow> World \<Rightarrow> nat" where
  "hygieneRows cid w =
     length (filter (\<lambda>s. sup_contactId s = cid \<and> sup_reason s = HYGIENE_SUPPRESSION_REASON)
               (w_suppressions w))"


section \<open>Send-time optimizer (src/unnamed/part_003)\<close>

definition HOURS_PER_WEEK :: nat where
  "HOURS_PER_WEEK = 7 * 24"

definition SEGMENT_TAG_PREFIX :: string where
  "SEGMENT_TAG_PREFIX = ''segment=''"

definition SMOOTHING_ALPHA :: rat where
  "SMOOTHING_ALPHA = 5"

definition ONE_DAY_MS :: int where
  "ONE_DAY_MS = 24 * 60 * 60 * 1000"

definition HISTOGRAM_CACHE_TTL_MS :: int where
  "HISTOGRAM_CACHE_TTL_MS = 60 * 1000"

definition createHistogram :: Histogram where
  "createHistogram = \<lparr> sends = replicate HOURS_PER_WEEK 0, clicks = replicate HOURS_PER_WEEK 0 \<rparr>"

text \<open>\<open>getUTCDay()\<close> and \<open>getUTCHours()\<close> of an instant; 1 January 1970 was a Thursday.\<close>

definition getUTCDay :: "int \<Rightarrow> nat" where
  "getUTCDay t = nat ((t div 86400000 + 4) mod 7)"

definition getUTCHours :: "int \<Rightarrow> nat" where
  "getUTCHours t = nat ((t div 3600000) mod 24)"

definition hourOfWeek :: "int \<Rightarrow> nat" where
  "hourOfWeek date = getUTCDay date * 24 + getUTCHours date"

definition startsWith :: "string \<Rightarrow> string \<Rightarrow> bool" where
  "startsWith s p = (take (length p) s = p)"

text \<open>
  \<open>tag.split("=")[1]\<close> of a tag that starts with "segment=": the text between the first
  "=" and the next one. The result may be the empty string, which callers test as false.
\<close>

definition getSegmentTag :: "string list \<Rightarrow> string option" where
  "getSegmentTag tags =
     (case find (\<lambda>v. startsWith v SEGMENT_TAG_PREFIX) tags of
        None \<Rightarrow> None
      | Some tag \<Rightarrow>
          Some (takeWhile (\<lambda>ch. ch \<noteq> CHR ''='') (drop 1 (dropWhile (\<lambda>ch. ch \<noteq> CHR ''='') tag))))"

text \<open>\<open>array[hour] += 1\<close> on an array of 168 counters.\<close>

definition bump :: "nat list \<Rightarrow> nat \<Rightarrow> nat list" where
  "bump xs hour = xs[hour := xs ! hour + 1]"

definition bumpHistogram :: "Histogram \<Rightarrow> nat \<Rightarrow> bool \<Rightarrow> Histogram" where
  "bumpHistogram h hour clicked =
     (let h1 = h \<lparr> sends := bump (sends h) hour \<rparr>
      in if clicked then h1 \<lparr> clicks := bump (clicks h1) hour \<rparr> else h1)"

text \<open>
  The \<open>forEach\<close> body of \<open>buildHistograms\<close>. The tags of a message are those of its
  contact row; the foreign key guarantees the row, and a dangling id reads as no tags.
\<close>

definition addMessage :: "Contact list \<Rightarrow> Message \<Rightarrow> Histograms \<Rightarrow> Histograms" where
  "addMessage contacts message hs =
     (case msg_sentAt message of
        None \<Rightarrow> hs
      | Some sentAt \<Rightarrow>
          (let hour = hourOfWeek sentAt;
               clicked = (msg_outcomeClickedAt message \<noteq> None);
               hs1 = hs \<lparr> global := bumpHistogram (global hs) hour clicked \<rparr>;
               tags = (case find (\<lambda>c. c_id c = msg_contactId message) contacts of
                         None \<Rightarrow> [] | Some c \<Rightarrow> c_tags c)
           in case getSegmentTag tags of
                None \<Rightarrow> hs1
              | Some segment \<Rightarrow>
                  if segment = [] then hs1
                  else
                    (let histogram = (case map_of (segments hs1) segment of
                                        None \<Rightarrow> createHistogram | Some h \<Rightarrow> h)
                     in hs1 \<lparr> segments :=
                               AList.update segment (bumpHistogram histogram hour clicked)
                                 (segments hs1) \<rparr>)))"

definition buildHistograms :: "World \<Rightarrow> Histograms" where
  "buildHistograms w =
     foldl (\<lambda>hs message. addMessage (w_contacts w) message hs)
       \<lparr> global = createHistogram, segments = [] \<rparr>
       (filter (\<lambda>m. msg_sentAt m \<noteq> None) (w_messages w))"

text \<open>\<open>dateNow\<close> is the value of \<open>Date.now()\<close>.\<close>

definition getHistograms :: "int \<Rightarrow> World \<Rightarrow> Histograms \<times> World" where
  "getHistograms dateNow w =
     (case w_histogramCache w of
        Some cache \<Rightarrow>
          if dateNow - cache_fetchedAt cache < HISTOGRAM_CACHE_TTL_MS then (cache_data cache, w)
          else (let d = buildHistograms w
                in (d, w \<lparr> w_histogramCache := Some \<lparr> cache_data = d, cache_fetchedAt = dateNow \<rparr> \<rparr>))
      | None \<Rightarrow>
          (let d = buildHistograms w
           in (d, w \<lparr> w_histogramCache := Some \<lparr> cache_data = d, cache_fetchedAt = dateNow \<rparr> \<rparr>)))"

definition computePrior :: "Histogram \<Rightarrow> rat" where
  "computePrior histogram =
     (let totalSends = foldl (\<lambda>s v. s + v) 0 (sends histogram);
          totalClicks = foldl (\<lambda>s v. s + v) 0 (clicks histogram)
      in if totalSends = 0 then 5 / 100
         else of_nat totalClicks / of_nat totalSends)"

text \<open>\<open>array[hour] ?? 0\<close>: an index past the end reads as 0.\<close>

definition countAt :: "nat list \<Rightarrow> nat \<Rightarrow> nat" where
  "countAt xs hour = (if hour < length xs then xs ! hour else 0)"

definition scoreHistogram :: "nat \<Rightarrow> Histogram \<Rightarrow> rat \<Rightarrow> rat" where
  "scoreHistogram hour histogram prior =
     (of_nat (countAt (clicks histogram) hour) + SMOOTHING_ALPHA * prior)
       / (of_nat (countAt (sends histogram) hour) + SMOOTHING_ALPHA)"

record BestHour =
  best_hour :: nat
  best_score :: "rat option"
  best_baseline :: rat

text \<open>\<open>score > bestScore\<close>, where \<open>bestScore\<close> starts at \<open>-Infinity\<close> (\<open>None\<close>).\<close>

definition exceeds :: "rat \<Rightarrow> rat option \<Rightarrow> bool" where
  "exceeds score bestScore = (case bestScore of None \<Rightarrow> True | Some b \<Rightarrow> score > b)"

text \<open>The \<open>for\<close> loop of \<open>pickBestHour\<close>, from \<open>hour\<close> on.\<close>

function pickLoop :: "Histogram \<Rightarrow> rat \<Rightarrow> nat \<Rightarrow> nat \<times> rat option \<Rightarrow> nat \<times> rat option" where
  "pickLoop histogram prior hour best =
     (if hour < HOURS_PER_WEEK then
        (let score = scoreHistogram hour histogram prior
         in if exceeds score (snd best) then pickLoop histogram prior (hour + 1) (hour, Some score)
            else pickLoop histogram prior (hour + 1) best)
      else best)"
  by pat_completeness auto
termination
  by (relation "measure (\<lambda>(histogram, prior, hour, best). HOURS_PER_WEEK - hour)") auto

declare pickLoop.simps [simp del]

definition pickBestHour :: "Histogram \<Rightarrow> Histogram \<Rightarrow> BestHour" where
  "pickBestHour histogram fallback =
     (let prior = computePrior histogram;
          fallbackPrior = computePrior fallback;
          best = pickLoop histogram prior 0 (0, None);
          baselineScore = scoreHistogram (fst best) fallback fallbackPrior
      in \<lparr> best_hour = fst best, best_score = snd best, best_baseline = baselineScore \<rparr>)"

datatype error = NotFound | RangeError

text \<open>
  The time-zone data of \<open>Intl.DateTimeFormat\<close> is a parameter \<open>tzdb\<close>: it gives, for a
  zone name it knows, the offset from UTC in milliseconds at an instant; the constructor
  throws a RangeError for a name it does not know. The formatted parts are the wall-clock
  fields down to the second, which \<open>setUTCFullYear\<close> and \<open>setUTCHours\<close> write back as
  if they were UTC, with the milliseconds set to 0.
\<close>

definition getNextDateForHour ::
  "(string \<Rightarrow> (int \<Rightarrow> int) option) \<Rightarrow> int \<Rightarrow> nat \<Rightarrow> string option \<Rightarrow> error + int" where
  "getNextDateForHour tzdb reference hourOfWeekValue timezone =
     (let baseOrError =
            (case timezone of
               None \<Rightarrow> Inr reference
             | Some zone \<Rightarrow>
                 if zone = [] then Inr reference
                 else (case tzdb zone of
                         None \<Rightarrow> Inl RangeError
                       | Some offset \<Rightarrow> Inr (((reference + offset reference) div 1000) * 1000)))
      in case baseOrError of
           Inl e \<Rightarrow> Inl e
         | Inr base \<Rightarrow>
             (let utcHour = hourOfWeekValue mod 24;
                  dayOffset = hourOfWeekValue div 24;
                  result1 = base + int ((dayOffset + 7 - getUTCDay base) mod 7) * 86400000;
                  result2 = (result1 div 86400000) * 86400000 + int utcHour * 3600000
              in if result2 \<le> base then Inr (result2 + 7 * 86400000) else Inr result2))"

record OptimizerRecommendation =
  rec_recommendedHour :: "nat option"
  rec_recommendedAt :: "int option"
  rec_score :: "rat option"
  rec_baselineScore :: rat
  rec_reason :: string
  rec_throttled :: bool

text \<open>The separator of the throttling note: a space, U+2022 in UTF-8, a space.\<close>

definition BULLET :: string where
  "BULLET = [CHR '' '', CHR 0xE2, CHR 0x80, CHR 0xA2, CHR '' '']"

definition someSendPositive :: "Histogram \<Rightarrow> bool" where
  "someSendPositive h = (\<exists>v \<in> set (sends h). v > 0)"

text \<open>
  \<open>recommendSendTime\<close>. The result is the value returned or the error thrown, with the
  store and cache as the call leaves them.
\<close>

definition recommendSendTime ::
  "(string \<Rightarrow> (int \<Rightarrow> int) option) \<Rightarrow> int \<Rightarrow> string \<Rightarrow> int \<Rightarrow> World
     \<Rightarrow> (error + OptimizerRecommendation) \<times> World" where
  "recommendSendTime tzdb dateNow contactId referenceDate w =
     (case find (\<lambda>c. c_id c = contactId) (w_contacts w) of
        None \<Rightarrow> (Inl NotFound, w)
      | Some contact \<Rightarrow>
          if c_status contact \<noteq> ACTIVE then
            (Inr \<lparr> rec_recommendedHour = None, rec_recommendedAt = None, rec_score = Some 0,
                   rec_baselineScore = 0, rec_reason = ''Contact not active'',
                   rec_throttled = False \<rparr>, w)
          else
            (let (histograms, w1) = getHistograms dateNow w;
                 segment = (case getSegmentTag (c_tags contact) of
                              None \<Rightarrow> None
                            | Some s \<Rightarrow> if s = [] then None else Some s);
                 segmentHistogram = (case segment of
                                       None \<Rightarrow> None
                                     | Some s \<Rightarrow> map_of (segments histograms) s);
                 usedSegmentHistogram = (case segmentHistogram of
                                           None \<Rightarrow> False
                                         | Some h \<Rightarrow> someSendPositive h);
                 histogramToUse = (case segmentHistogram of
                                     None \<Rightarrow> global histograms
                                   | Some h \<Rightarrow> if someSendPositive h then h else global histograms);
                 best = pickBestHour histogramToUse (global histograms);
                 hour = best_hour best;
                 rationale0 = (case segment of
                                 None \<Rightarrow> ''Global recommendation''
                               | Some s \<Rightarrow> ''Segment-based recommendation ('' @ s @ '')'')
             in case getNextDateForHour tzdb referenceDate hour (c_timezone contact) of
                  Inl e \<Rightarrow> (Inl e, w1)
                | Inr recommendedAt0 \<Rightarrow>
                    (let throttled = (case c_lastMessageSentAt contact of
                                        None \<Rightarrow> False
                                      | Some t \<Rightarrow> t + ONE_DAY_MS > referenceDate);
                         recomputed = (case c_lastMessageSentAt contact of
                                         None \<Rightarrow> Inr recommendedAt0
                                       | Some t \<Rightarrow>
                                           if recommendedAt0 < t + ONE_DAY_MS then
                                             getNextDateForHour tzdb (t + ONE_DAY_MS) hour
                                               (c_timezone contact)
                                           else Inr recommendedAt0)
                     in case recomputed of
                          Inl e \<Rightarrow> (Inl e, w1)
                        | Inr recommendedAt \<Rightarrow>
                            (let rationale = (if throttled
                                              then rationale0 @ BULLET @ ''throttled 24h cooldown''
                                              else rationale0);
                                 decision =
                                   \<lparr> dec_contactId = c_id contact, dec_recommendedHour = hour,
                                     dec_score = best_score best,
                                     dec_baselineScore = best_baseline best,
                                     dec_segment = (case getSegmentTag (c_tags contact) of
                                                      None \<Rightarrow> ''global'' | Some s \<Rightarrow> s),
                                     dec_usedSegmentHistogram = usedSegmentHistogram,
                                     dec_generatedAt = referenceDate,
                                     dec_throttled = throttled,
                                     dec_recommendedAt = Some recommendedAt \<rparr>;
                                 w2 = w1 \<lparr> w_decisions := w_decisions w1 @ [decision] \<rparr>
                             in (Inr \<lparr> rec_recommendedHour = Some hour,
                                       rec_recommendedAt = Some recommendedAt,
                                       rec_score = best_score best,
                                       rec_baselineScore = best_baseline best,
                                       rec_reason = rationale,
                                       rec_throttled = throttled \<rparr>, w2)))))"


section \<open>Flow execution engine (src/unnamed/part_004)\<close>

definition SCHEDULE_THRESHOLD_MS :: int where
  "SCHEDULE_THRESHOLD_MS = 5 * 60 * 1000"

text \<open>A run as the due-run query loads it: its row, its flow and its contact.\<close>

record LoadedRun =
  lr_run :: FlowRun
  lr_flow :: Flow
  lr_contact :: Contact

record RunResult =
  rr_completed :: bool
  rr_rescheduled :: bool
  rr_cancelled :: bool

record ProcessFlowRunsOptions =
  pf_now :: "int option"
  pf_limit :: "nat option"

record ProcessFlowRunsSummary =
  ps_evaluated :: nat
  ps_completed :: nat
  ps_rescheduled :: nat
  ps_cancelled :: nat
  ps_failed :: nat

text \<open>What a \<open>throw\<close> carries: a ResendError, another Error, or a value that is no Error.\<close>

datatype thrown = ThrownResendError string | ThrownError string | ThrownValue

record ResendSendParams =
  sp_to :: string
  sp_subject :: string
  sp_html :: string
  sp_tags :: "(string \<times> string) list option"

text \<open>
  What the engine takes from outside while it processes one run: the time-zone data, the
  readings of \<open>Date.now()\<close> and \<open>new Date()\<close>, and the installed mail transport, which
  returns the id of the message or throws.
\<close>

record Env =
  env_tzdb :: "string \<Rightarrow> (int \<Rightarrow> int) option"
  env_dateNow :: int
  env_newDate :: int
  env_sendEmail :: "ResendSendParams \<Rightarrow> thrown + string"

definition buildTagRecord :: "string list \<Rightarrow> (string \<times> string) list option" where
  "buildTagRecord tags =
     (if length tags = 0 then None
      else Some (map (\<lambda>(index, tag). (''tag_'' @ [char_of (48 + (index + 1))], tag))
                   (zip [0 ..< 8] (take 8 tags))))"

definition extractDelayMinutes :: "Step \<Rightarrow> int option \<Rightarrow> rat" where
  "extractDelayMinutes step fallback =
     (let fromFallback = (case fallback of None \<Rightarrow> 0 | Some v \<Rightarrow> of_int v)
      in case step_config step of
           Some (JObj entries) \<Rightarrow>
             (case map_of entries ''minutes'' of
                Some (JNum v) \<Rightarrow> v
              | _ \<Rightarrow> fromFallback)
         | _ \<Rightarrow> fromFallback)"

definition extractSegmentId :: "Step \<Rightarrow> string option \<Rightarrow> string option" where
  "extractSegmentId step fallback =
     (case step_config step of
        Some (JObj entries) \<Rightarrow>
          (case map_of entries ''segmentId'' of
             Some (JStr v) \<Rightarrow> if length v > 0 then Some v else fallback
           | _ \<Rightarrow> fallback)
      | _ \<Rightarrow> fallback)"

definition getNextOrder :: "int \<Rightarrow> Step list \<Rightarrow> int" where
  "getNextOrder current steps =
     (let candidates = sort (filter (\<lambda>order. order > current) (map step_order steps))
      in case candidates of
           [] \<Rightarrow> current + 1
         | first # _ \<Rightarrow> first)"

text \<open>\<open>prisma.flowRun.update({ where: { id }, data })\<close>, the data as a change of the row.\<close>

definition updateFlowRun :: "string \<Rightarrow> (FlowRun \<Rightarrow> FlowRun) \<Rightarrow> World \<Rightarrow> World" where
  "updateFlowRun rid change w =
     w \<lparr> w_flowRuns := map (\<lambda>r. if run_id r = rid then change r else r) (w_flowRuns w) \<rparr>"

definition statusName :: "ContactStatus \<Rightarrow> string" where
  "statusName st =
     (case st of ACTIVE \<Rightarrow> ''ACTIVE'' | BOUNCED \<Rightarrow> ''BOUNCED''
               | COMPLAINED \<Rightarrow> ''COMPLAINED'' | SUPPRESSED \<Rightarrow> ''SUPPRESSED'')"

text \<open>The time value of \<open>new Date(x)\<close> for a finite \<open>x\<close>: the fraction is cut off.\<close>

definition timeClip :: "rat \<Rightarrow> int" where
  "timeClip x = (if x \<ge> 0 then \<lfloor>x\<rfloor> else \<lceil>x\<rceil>)"

definition thrownMessage :: "thrown \<Rightarrow> string \<Rightarrow> string" where
  "thrownMessage e fallback =
     (case e of ThrownResendError m \<Rightarrow> m | ThrownError m \<Rightarrow> m | ThrownValue \<Rightarrow> fallback)"

text \<open>
  \<open>executeSendStep\<close>: \<open>None\<close> when it returns, \<open>Some e\<close> when it throws \<open>e\<close>, with the
  store as it leaves it.
\<close>

definition executeSendStep :: "Env \<Rightarrow> LoadedRun \<Rightarrow> int \<Rightarrow> World \<Rightarrow> thrown option \<times> World" where
  "executeSendStep env run now w =
     (let contact = lr_contact run;
          rid = run_id (lr_run run)
      in if c_email contact = [] then
           (None, updateFlowRun rid
                    (\<lambda>r. r \<lparr> run_status := CANCELLED,
                             run_cancelledReason := Some ''Contact missing email'',
                             run_completedAt := Some now \<rparr>) w)
         else if c_status contact \<noteq> ACTIVE then
           (None, updateFlowRun rid
                    (\<lambda>r. r \<lparr> run_status := CANCELLED,
                             run_cancelledReason :=
                               Some (''Contact status is '' @ statusName (c_status contact)),
                             run_completedAt := Some now \<rparr>) w)
         else
           (let (recommendedAt, w1) =
                  (if flow_useOptimizer (lr_flow run) then
                     (case recommendSendTime (env_tzdb env) (env_dateNow env) (c_id contact) now w of
                        (Inl e, w') \<Rightarrow> (None, w')
                      | (Inr recommendation, w') \<Rightarrow> (rec_recommendedAt recommendation, w'))
                   else (None, w));
                shouldSchedule = (case recommendedAt of
                                    None \<Rightarrow> False
                                  | Some t \<Rightarrow> t - now > SCHEDULE_THRESHOLD_MS);
                nextOrder = getNextOrder (run_nextStepOrder (lr_run run)) (flow_steps (lr_flow run))
            in if shouldSchedule then
                 (None,
                  updateFlowRun rid
                    (\<lambda>r. r \<lparr> run_status := COMPLETED, run_completedAt := Some now,
                             run_nextStepOrder := nextOrder \<rparr>)
                    (w1 \<lparr> w_messages := w_messages w1 @
                            [\<lparr> msg_contactId = c_id contact,
                               msg_templateId = flow_templateId (lr_flow run),
                               msg_resendMessageId = None, msg_status = MSG_SCHEDULED,
                               msg_scheduledSendAt = recommendedAt, msg_sentAt = None,
                               msg_flowRunId = Some rid, msg_outcomeClickedAt = None \<rparr>] \<rparr>))
               else
                 (case env_sendEmail env
                         \<lparr> sp_to = c_email contact,
                           sp_subject = flow_templateSubject (lr_flow run),
                           sp_html = flow_templateHtml (lr_flow run),
                           sp_tags = buildTagRecord (c_tags contact) \<rparr> of
                    Inr resultId \<Rightarrow>
                      (let sentAt = env_newDate env;
                           w2 = w1 \<lparr> w_messages := w_messages w1 @
                                  [\<lparr> msg_contactId = c_id contact,
                                     msg_templateId = flow_templateId (lr_flow run),
                                     msg_resendMessageId = Some resultId, msg_status = MSG_SENT,
                                     msg_scheduledSendAt = None, msg_sentAt = Some sentAt,
                                     msg_flowRunId = Some rid, msg_outcomeClickedAt = None \<rparr>] \<rparr>;
                           w3 = w2 \<lparr> w_contacts :=
                                  map (\<lambda>c. if c_id c = c_id contact
                                            then c \<lparr> c_lastMessageSentAt := Some sentAt \<rparr> else c)
                                    (w_contacts w2) \<rparr>
                       in (None,
                           updateFlowRun rid
                             (\<lambda>r. r \<lparr> run_status := COMPLETED, run_completedAt := Some now,
                                      run_nextStepOrder := nextOrder \<rparr>) w3))
                  | Inl e \<Rightarrow>
                      (Some e,
                       updateFlowRun rid
                         (\<lambda>r. r \<lparr> run_status := FAILED,
                                  run_cancelledReason :=
                                    Some (thrownMessage e ''Failed to send flow message'') \<rparr>) w1))))"

text \<open>
  One pass through the body of the \<open>while (true)\<close> loop of \<open>processSingleRun\<close>: either
  \<open>continue\<close> with a new pointer (nothing has been written), or leave the function, by
  \<open>return\<close> or by a \<open>throw\<close>, with the store as it is then.
\<close>

datatype Iteration = Continue int | Leave "thrown + RunResult" World

definition iteration :: "Env \<Rightarrow> LoadedRun \<Rightarrow> int \<Rightarrow> int \<Rightarrow> World \<Rightarrow> Iteration" where
  "iteration env run now pointer w =
     (let steps = flow_steps (lr_flow run);
          rid = run_id (lr_run run)
      in case find (\<lambda>candidate. step_order candidate = pointer) steps of
           None \<Rightarrow>
             Leave (Inr \<lparr> rr_completed = True, rr_rescheduled = False, rr_cancelled = False \<rparr>)
               (updateFlowRun rid
                  (\<lambda>r. r \<lparr> run_status := COMPLETED, run_completedAt := Some now,
                           run_nextStepOrder := pointer \<rparr>) w)
         | Some step \<Rightarrow>
             (case step_type step of
                DELAY \<Rightarrow>
                  (let minutes = extractDelayMinutes step (flow_delayMinutes (lr_flow run))
                   in if minutes = 0 \<or> minutes \<le> 0 then Continue (getNextOrder pointer steps)
                      else
                        (let scheduledAt = timeClip (of_int now + minutes * 60 * 1000)
                         in Leave (Inr \<lparr> rr_completed = False, rr_rescheduled = True,
                                         rr_cancelled = False \<rparr>)
                              (updateFlowRun rid
                                 (\<lambda>r. r \<lparr> run_status := WAITING, run_scheduledAt := scheduledAt,
                                          run_nextStepOrder := getNextOrder pointer steps \<rparr>) w)))
              | SEGMENT_FILTER \<Rightarrow>
                  (let segmentId = (case extractSegmentId step (flow_segmentId (lr_flow run)) of
                                      None \<Rightarrow> None
                                    | Some s \<Rightarrow> if s = [] then None else Some s)
                   in case segmentId of
                        None \<Rightarrow> Continue (getNextOrder pointer steps)
                      | Some sid \<Rightarrow>
                          if (sid, run_contactId (lr_run run)) \<in> set (w_memberships w) then
                            Continue (getNextOrder pointer steps)
                          else
                            Leave (Inr \<lparr> rr_completed = False, rr_rescheduled = False,
                                          rr_cancelled = True \<rparr>)
                              (updateFlowRun rid
                                 (\<lambda>r. r \<lparr> run_status := CANCELLED,
                                          run_cancelledReason := Some ''Contact no longer in segment'',
                                          run_completedAt := Some now,
                                          run_nextStepOrder := pointer \<rparr>) w))
              | SEND_TEMPLATE \<Rightarrow>
                  (case executeSendStep env run now w of
                     (None, w') \<Rightarrow>
                       Leave (Inr \<lparr> rr_completed = True, rr_rescheduled = False,
                                     rr_cancelled = False \<rparr>) w'
                   | (Some e, w') \<Rightarrow> Leave (Inl e) w')
              | TRIGGER \<Rightarrow> Continue (getNextOrder pointer steps)))"


text \<open>
  The loop continues only from a step that sits at the pointer, and only to the order that
  \<open>getNextOrder\<close> gives; that order is greater than the pointer.
\<close>

lemma getNextOrder_greater: "current < getNextOrder current steps"
proof (cases "sort (filter (\<lambda>order. order > current) (map step_order steps))")
  case Nil
  then show ?thesis by (simp add: getNextOrder_def)
next
  case (Cons first rest)
  then have "first \<in> set (sort (filter (\<lambda>order. order > current) (map step_order steps)))"
    by simp
  then have "current < first" by auto
  with Cons show ?thesis by (simp add: getNextOrder_def)
qed

lemma iteration_Continue:
  assumes "iteration env run now pointer w = Continue next"
  shows "\<exists>step. find (\<lambda>candidate. step_order candidate = pointer) (flow_steps (lr_flow run)) = Some step"
    and "next = getNextOrder pointer (flow_steps (lr_flow run))"
  using assms
  by (auto simp: iteration_def Let_def
           split: option.splits FlowStepType.splits if_splits prod.splits)

lemma remaining_steps_decrease:
  assumes "find (\<lambda>candidate. step_order candidate = pointer) steps = Some step"
    and "pointer < next"
  shows "length (filter (\<lambda>s. next \<le> step_order s) steps)
           < length (filter (\<lambda>s. pointer \<le> step_order s) steps)"
proof -
  from assms(1) have mem: "step \<in> set steps" and ord: "step_order step = pointer"
    by (auto simp: find_Some_iff)
  have "filter (\<lambda>s. next \<le> step_order s) steps
          = filter (\<lambda>s. next \<le> step_order s) (filter (\<lambda>s. pointer \<le> step_order s) steps)"
    using assms(2) by (auto intro: filter_cong)
  moreover have "step \<in> set (filter (\<lambda>s. pointer \<le> step_order s) steps)"
    using mem ord by simp
  moreover have "\<not> next \<le> step_order step"
    using ord assms(2) by simp
  ultimately show ?thesis
    by (metis length_filter_less)
qed

text \<open>The \<open>while (true)\<close> loop of \<open>processSingleRun\<close>, entered with the pointer given.\<close>

function processSingleRun_loop ::
  "Env \<Rightarrow> LoadedRun \<Rightarrow> int \<Rightarrow> World \<Rightarrow> int \<Rightarrow> (thrown + RunResult) \<times> World" where
  "processSingleRun_loop env run now w pointer =
     (case iteration env run now pointer w of
        Continue next \<Rightarrow> processSingleRun_loop env run now w next
      | Leave outcome w' \<Rightarrow> (outcome, w'))"
  by pat_completeness auto
termination
proof (relation "measure (\<lambda>(env, run, now, w, pointer).
          length (filter (\<lambda>s. pointer \<le> step_order s) (flow_steps (lr_flow run))))")
  show "wf (measure (\<lambda>(env, run, now, w, pointer).
          length (filter (\<lambda>s. pointer \<le> step_order s) (flow_steps (lr_flow run)))))"
    by simp
next
  fix env :: Env and run :: LoadedRun and now :: int and w :: World and pointer nxt :: int
  assume c: "iteration env run now pointer w = Continue nxt"
  from iteration_Continue[OF c] obtain step where
    f: "find (\<lambda>candidate. step_order candidate = pointer) (flow_steps (lr_flow run)) = Some step"
    and n: "nxt = getNextOrder pointer (flow_steps (lr_flow run))"
    by blast
  have "pointer < nxt" using n getNextOrder_greater by simp
  from remaining_steps_decrease[OF f this]
  show "((env, run, now, w, nxt), (env, run, now, w, pointer))
          \<in> measure (\<lambda>(env, run, now, w, pointer).
               length (filter (\<lambda>s. pointer \<le> step_order s) (flow_steps (lr_flow run))))"
    by simp
qed

declare processSingleRun_loop.simps [simp del]

definition processSingleRun :: "Env \<Rightarrow> LoadedRun \<Rightarrow> int \<Rightarrow> World \<Rightarrow> (thrown + RunResult) \<times> World" where
  "processSingleRun env run now w =
     processSingleRun_loop env run now w (run_nextStepOrder (lr_run run))"

text \<open>
  The same loop with a budget of passes through its body: each pass takes one unit, and
  \<open>None\<close> says that the budget ran out before the loop was left.
\<close>

fun processSingleRun_bounded ::
  "nat \<Rightarrow> Env \<Rightarrow> LoadedRun \<Rightarrow> int \<Rightarrow> World \<Rightarrow> int \<Rightarrow> ((thrown + RunResult) \<times> World) option" where
  "processSingleRun_bounded 0 env run now w pointer = None"
| "processSingleRun_bounded (Suc budget) env run now w pointer =
     (case iteration env run now pointer w of
        Continue next \<Rightarrow> processSingleRun_bounded budget env run now w next
      | Leave outcome w' \<Rightarrow> Some (outcome, w'))"

text \<open>The body of the \<open>for\<close> loop of \<open>processDueFlowRuns\<close>, with its \<open>try\<close> and \<open>catch\<close>.\<close>

definition tickRun ::
  "Env \<Rightarrow> int \<Rightarrow> LoadedRun \<Rightarrow> ProcessFlowRunsSummary \<times> World \<Rightarrow> ProcessFlowRunsSummary \<times> World" where
  "tickRun env now run sw =
     (let summary = fst sw
      in case processSingleRun env run now (snd sw) of
           (Inr result, w') \<Rightarrow>
             (let s1 = (if rr_completed result
                        then summary \<lparr> ps_completed := ps_completed summary + 1 \<rparr> else summary);
                  s2 = (if rr_rescheduled result
                        then s1 \<lparr> ps_rescheduled := ps_rescheduled s1 + 1 \<rparr> else s1);
                  s3 = (if rr_cancelled result
                        then s2 \<lparr> ps_cancelled := ps_cancelled s2 + 1 \<rparr> else s2)
              in (s3, w'))
         | (Inl e, w') \<Rightarrow>
             (summary \<lparr> ps_failed := ps_failed summary + 1 \<rparr>,
              updateFlowRun (run_id (lr_run run))
                (\<lambda>r. r \<lparr> run_status := FAILED,
                         run_cancelledReason := Some (thrownMessage e ''Flow processing failed'') \<rparr>)
                w'))"

text \<open>
  The due-run query: runs that are PENDING or WAITING and scheduled at or before \<open>now\<close>,
  by ascending \<open>scheduledAt\<close>, at most \<open>limit\<close> of them, each with its flow (steps by
  ascending order) and its contact. Both relations are required ones.
\<close>

definition findDueRuns :: "int \<Rightarrow> nat \<Rightarrow> World \<Rightarrow> LoadedRun list" where
  "findDueRuns now limit w =
     take limit
       (List.map_filter
          (\<lambda>r. case (find (\<lambda>f. flow_id f = run_flowId r) (w_flows w),
                      find (\<lambda>c. c_id c = run_contactId r) (w_contacts w)) of
                  (Some f, Some c) \<Rightarrow>
                    Some \<lparr> lr_run = r,
                           lr_flow = f \<lparr> flow_steps := sort_key step_order (flow_steps f) \<rparr>,
                           lr_contact = c \<rparr>
                | _ \<Rightarrow> None)
          (sort_key run_scheduledAt
             (filter (\<lambda>r. (run_status r = PENDING \<or> run_status r = WAITING)
                          \<and> run_scheduledAt r \<le> now)
                (w_flowRuns w))))"

text \<open>\<open>envOf\<close> gives, for the id of a run, what the outside supplies while it is processed.\<close>

definition processDueFlowRuns ::
  "(string \<Rightarrow> Env) \<Rightarrow> ProcessFlowRunsOptions \<Rightarrow> int \<Rightarrow> World \<Rightarrow> ProcessFlowRunsSummary \<times> World" where
  "processDueFlowRuns envOf options clock w =
     (let now = (case pf_now options of None \<Rightarrow> clock | Some t \<Rightarrow> t);
          limit = (case pf_limit options of None \<Rightarrow> 20 | Some n \<Rightarrow> n);
          runs = findDueRuns now limit w;
          summary = \<lparr> ps_evaluated = length runs, ps_completed = 0, ps_rescheduled = 0,
                      ps_cancelled = 0, ps_failed = 0 \<rparr>
      in foldl (\<lambda>sw run. tickRun (envOf (run_id (lr_run run))) now run sw) (summary, w) runs)"

text \<open>The status that the store holds for a run.\<close>

definition runStatus :: "string \<Rightarrow> World \<Rightarrow> FlowRunStatus option" where
  "runStatus rid w = map_option run_status (find (\<lambda>r. run_id r = rid) (w_flowRuns w))"


section \<open>Concrete inputs\<close>

text \<open>A week of sends with no click: one send in hour 0, two in hour 1.\<close>

definition c3_histogram :: Histogram where
  "c3_histogram = \<lparr> sends = [1, 2] @ replicate 166 0, clicks = replicate 168 0 \<rparr>"

text \<open>A contact tagged as synthetic that has complained, and an active one.\<close>

definition c6_input :: HygieneComputationInput where
  "c6_input = \<lparr> in_id = ''contact-1'', in_status = COMPLAINED,
                in_tags = [''test-list'', ''synthetic''], in_lastEventAt = None,
                in_lastMessageSentAt = None, in_propensity = Some 0, in_suppressions = [] \<rparr>"

definition c9_input :: HygieneComputationInput where
  "c9_input = \<lparr> in_id = ''contact-2'', in_status = ACTIVE,
                in_tags = [''test-list''], in_lastEventAt = Some 0,
                in_lastMessageSentAt = None, in_propensity = Some (78 / 100),
                in_suppressions = [] \<rparr>"



text \<open>
  Time-zone data that knows two zones: New York at its winter offset of five hours
  behind UTC, and UTC.
\<close>

definition demo_tzdb :: "string \<Rightarrow> (int \<Rightarrow> int) option" where
  "demo_tzdb zone =
     (if zone = ''America/New_York'' then Some (\<lambda>t. - 18000000)
      else if zone = ''UTC'' then Some (\<lambda>t. 0)
      else None)"

text \<open>
  An active contact in New York whose last send was on Saturday 3 January 2026 at 04:00
  UTC (1767412800000), a bounced contact, and a store that holds the two and nothing else.
\<close>

definition c2_contact :: Contact where
  "c2_contact = \<lparr> c_id = ''contact-ny'', c_email = ''ny@resend.dev'', c_status = ACTIVE,
                  c_tags = [], c_timezone = Some ''America/New_York'', c_lastEventAt = None,
                  c_lastMessageSentAt = Some 1767412800000, c_propensity = None,
                  c_hygieneRiskLevel = LOW, c_hygieneScore = None \<rparr>"

definition c7_contact :: Contact where
  "c7_contact = \<lparr> c_id = ''contact-b'', c_email = ''b@resend.dev'', c_status = BOUNCED,
                  c_tags = [], c_timezone = None, c_lastEventAt = None,
                  c_lastMessageSentAt = None, c_propensity = None,
                  c_hygieneRiskLevel = LOW, c_hygieneScore = None \<rparr>"

definition demo_world :: World where
  "demo_world = \<lparr> w_contacts = [c2_contact, c7_contact], w_suppressions = [],
                  w_evaluations = [], w_messages = [], w_decisions = [], w_flows = [],
                  w_flowRuns = [], w_memberships = [], w_histogramCache = None \<rparr>"

text \<open>What the outside supplies in the examples: the transport accepts every message.\<close>

definition demo_env :: Env where
  "demo_env = \<lparr> env_tzdb = demo_tzdb, env_dateNow = 1769776200000,
                env_newDate = 1769776200000,
                env_sendEmail = (\<lambda>params. Inr ''resend-123'') \<rparr>"

text \<open>The same with a transport that rejects every message.\<close>

definition failing_env :: Env where
  "failing_env = demo_env \<lparr> env_sendEmail :=
                              (\<lambda>params. Inl (ThrownResendError ''Invalid Resend API key'')) \<rparr>"

text \<open>
  The flow [TRIGGER, DELAY(45), SEND_TEMPLATE] with the orders 1, 2 and 3, and a run of
  it whose pointer is at the DELAY step.
\<close>

definition c5_trigger_step :: Step where
  "c5_trigger_step = \<lparr> step_order = 1, step_type = TRIGGER,
                        step_config = Some (JObj [(''eventName'', JStr ''user.signup'')]) \<rparr>"

definition c5_delay_step :: Step where
  "c5_delay_step = \<lparr> step_order = 2, step_type = DELAY,
                      step_config = Some (JObj [(''minutes'', JNum 45)]) \<rparr>"

definition c5_send_step :: Step where
  "c5_send_step = \<lparr> step_order = 3, step_type = SEND_TEMPLATE,
                     step_config = Some (JObj [(''templateId'', JStr ''template-1'')]) \<rparr>"

definition c5_flow :: Flow where
  "c5_flow = \<lparr> flow_id = ''flow-1'',
               flow_steps = [c5_trigger_step, c5_delay_step, c5_send_step],
               flow_delayMinutes = Some 45, flow_useOptimizer = True, flow_segmentId = None,
               flow_templateId = ''template-1'', flow_templateSubject = ''Welcome'',
               flow_templateHtml = ''<p>Hi</p>'' \<rparr>"

definition c5_row :: FlowRun where
  "c5_row = \<lparr> run_id = ''run-delay'', run_flowId = ''flow-1'', run_contactId = ''contact-ny'',
              run_status = PENDING, run_nextStepOrder = 2, run_scheduledAt = 1769774400000,
              run_completedAt = None, run_cancelledReason = None \<rparr>"

definition c5_run :: LoadedRun where
  "c5_run = \<lparr> lr_run = c5_row, lr_flow = c5_flow, lr_contact = c2_contact \<rparr>"

text \<open>The same run over a flow whose DELAY step asks for 0 minutes.\<close>

definition c5_zero_step :: Step where
  "c5_zero_step = c5_delay_step \<lparr> step_config := Some (JObj [(''minutes'', JNum 0)]) \<rparr>"

definition c5_zero_run :: LoadedRun where
  "c5_zero_run =
     c5_run \<lparr> lr_flow := c5_flow \<lparr> flow_steps := [c5_trigger_step, c5_zero_step, c5_send_step],
                                   flow_delayMinutes := None \<rparr> \<rparr>"

text \<open>The same run over a flow whose DELAY step has no configuration and no fixed delay.\<close>

definition c5_absent_step :: Step where
  "c5_absent_step = c5_delay_step \<lparr> step_config := None \<rparr>"

definition c5_absent_run :: LoadedRun where
  "c5_absent_run =
     c5_run \<lparr> lr_flow := c5_flow \<lparr> flow_steps := [c5_trigger_step, c5_absent_step, c5_send_step],
                                   flow_delayMinutes := None \<rparr> \<rparr>"

text \<open>
  The flow [TRIGGER, SEND_TEMPLATE] without the optimizer, a run of it that is due at
  1769776200000 (30 January 2026, 12:30 UTC) with the pointer at the SEND_TEMPLATE step,
  for the bounced contact, and the store that holds them.
\<close>

definition c1_send_step :: Step where
  "c1_send_step = \<lparr> step_order = 2, step_type = SEND_TEMPLATE,
                     step_config = Some (JObj [(''templateId'', JStr ''template-2'')]) \<rparr>"

definition c1_flow :: Flow where
  "c1_flow = \<lparr> flow_id = ''flow-2'', flow_steps = [c5_trigger_step, c1_send_step],
               flow_delayMinutes = None, flow_useOptimizer = False, flow_segmentId = None,
               flow_templateId = ''template-2'', flow_templateSubject = ''Welcome!'',
               flow_templateHtml = ''<p>Hello</p>'' \<rparr>"

definition c1_row :: FlowRun where
  "c1_row = \<lparr> run_id = ''run-send'', run_flowId = ''flow-2'', run_contactId = ''contact-b'',
              run_status = PENDING, run_nextStepOrder = 2, run_scheduledAt = 1769776200000,
              run_completedAt = None, run_cancelledReason = None \<rparr>"

definition c1_world :: World where
  "c1_world = demo_world \<lparr> w_flows := [c1_flow], w_flowRuns := [c1_row] \<rparr>"

definition c1_run :: LoadedRun where
  "c1_run = \<lparr> lr_run = c1_row, lr_flow = c1_flow, lr_contact = c7_contact \<rparr>"

text \<open>The same run loaded with the active contact.\<close>

definition c1_active_run :: LoadedRun where
  "c1_active_run = \<lparr> lr_run = c1_row, lr_flow = c1_flow, lr_contact = c2_contact \<rparr>"

definition c1_summary :: ProcessFlowRunsSummary where
  "c1_summary = \<lparr> ps_evaluated = 1, ps_completed = 0, ps_rescheduled = 0, ps_cancelled = 0,
                  ps_failed = 0 \<rparr>"

(*MARK:INPUTS*)

section \<open>Auxiliary facts\<close>

lemma foldl_plus_sum: "foldl (\<lambda>s v. s + v) a xs = a + sum_list (xs :: nat list)"
  by (induction xs arbitrary: a) simp_all

lemma computePrior_zero_clicks:
  assumes "foldl (\<lambda>s v. s + v) 0 (sends h) \<noteq> 0" and "\<forall>v \<in> set (clicks h). v = 0"
  shows "computePrior h = 0"
proof -
  have "sum_list (clicks h) = 0" using assms(2) by simp
  then show ?thesis using assms(1) by (simp add: computePrior_def Let_def foldl_plus_sum)
qed

lemma countAt_zero: "\<forall>v \<in> set xs. v = 0 \<Longrightarrow> countAt xs k = 0"
  by (simp add: countAt_def)

lemma score_decreasing:
  assumes "0 < prior" "countAt (clicks h) i = 0" "countAt (clicks h) j = 0"
     "countAt (sends h) i < countAt (sends h) j"
  shows "scoreHistogram j h prior < scoreHistogram i h prior"
proof -
  have "(of_nat (countAt (sends h) i) :: rat) + 5 < of_nat (countAt (sends h) j) + 5"
    using assms(4) by simp
  moreover have "(0::rat) < of_nat (countAt (sends h) i) + 5"
    by (simp add: add_nonneg_pos)
  moreover have "0 < 5 * prior" using assms(1) by simp
  ultimately have "5 * prior / (of_nat (countAt (sends h) j) + 5)
                     < 5 * prior / (of_nat (countAt (sends h) i) + 5)"
    by (intro divide_strict_left_mono) (simp_all add: add_nonneg_pos)
  then show ?thesis using assms(2,3) by (simp add: scoreHistogram_def SMOOTHING_ALPHA_def)
qed



lemma getNextDateForHour_error:
  "getNextDateForHour tzdb reference hour timezone = Inl e \<Longrightarrow> e = RangeError"
  by (auto simp: getNextDateForHour_def Let_def split: option.splits if_splits sum.splits)

lemma recommend_found:
  assumes "find (\<lambda>c. c_id c = cid) (w_contacts w) = Some contact"
  shows "fst (recommendSendTime tzdb dateNow cid ref w) \<noteq> Inl NotFound"
proof (cases "c_status contact = ACTIVE")
  case False
  with assms show ?thesis by (simp add: recommendSendTime_def)
next
  case True
  show ?thesis
  proof
    assume a: "fst (recommendSendTime tzdb dateNow cid ref w) = Inl NotFound"
    from a assms True show False
      by (auto simp: recommendSendTime_def Let_def
               split: prod.splits sum.splits option.splits if_splits
               dest: getNextDateForHour_error)
  qed
qed

text \<open>Without a time zone the instant computed is after the reference, and there is one.\<close>

lemma getNextDateForHour_utc_after:
  assumes "getNextDateForHour tzdb reference hour None = Inr r"
  shows "reference < r"
proof -
  define k where "k = int ((hour div 24 + 7 - getUTCDay reference) mod 7)"
  define r1 where "r1 = reference + k * 86400000"
  define r2 where "r2 = (r1 div 86400000) * 86400000 + int (hour mod 24) * 3600000"
  have k: "0 \<le> k" by (simp add: k_def)
  have "r1 mod 86400000 < 86400000" by simp
  moreover have "r1 = (r1 div 86400000) * 86400000 + r1 mod 86400000" by simp
  ultimately have "r1 - 86400000 < (r1 div 86400000) * 86400000" by linarith
  moreover have "reference \<le> r1" using k by (simp add: r1_def)
  ultimately have lo: "reference - 86400000 < r2" by (simp add: r2_def)
  have "r = (if r2 \<le> reference then r2 + 7 * 86400000 else r2)"
    using assms by (simp add: getNextDateForHour_def Let_def r2_def r1_def k_def split: if_splits)
  with lo show ?thesis by (simp split: if_splits)
qed

lemma getNextDateForHour_utc_total:
  "\<exists>r. getNextDateForHour tzdb reference hour None = Inr r"
  by (simp add: getNextDateForHour_def Let_def)

text \<open>
  The cooldown as the optimizer keeps it for a contact without a time zone: one hour after
  the last send the recommendation is throttled and its instant is at least 24 hours after
  that send.
\<close>

lemma cooldown_without_timezone:
  assumes "find (\<lambda>c. c_id c = cid) (w_contacts w) = Some contact"
    and "c_status contact = ACTIVE"
    and "c_lastMessageSentAt contact = Some t"
    and "c_timezone contact = None"
  shows "case fst (recommendSendTime tzdb dateNow cid (t + 3600000) w) of
           Inl e \<Rightarrow> False
         | Inr r \<Rightarrow> rec_throttled r
                     \<and> (case rec_recommendedAt r of
                           None \<Rightarrow> False
                         | Some instant \<Rightarrow> t + 24 * 3600000 \<le> instant)"
proof -
  obtain hs w1 where g: "getHistograms dateNow w = (hs, w1)" by (cases "getHistograms dateNow w")
  define hour where "hour = best_hour (pickBestHour
      (case (case (case getSegmentTag (c_tags contact) of None \<Rightarrow> None
                                     | Some s \<Rightarrow> if s = [] then None else Some s) of
               None \<Rightarrow> None | Some s \<Rightarrow> map_of (segments hs) s) of
         None \<Rightarrow> global hs
       | Some h \<Rightarrow> if someSendPositive h then h else global hs) (global hs))"
  obtain r0 where r0: "getNextDateForHour tzdb (t + 3600000) hour None = Inr r0"
    using getNextDateForHour_utc_total by blast
  obtain r1 where r1: "getNextDateForHour tzdb (t + ONE_DAY_MS) hour None = Inr r1"
    using getNextDateForHour_utc_total by blast
  have b1: "t + ONE_DAY_MS < r1" using getNextDateForHour_utc_after[OF r1] .
  have d: "ONE_DAY_MS = 24 * 3600000" by (simp add: ONE_DAY_MS_def)
  show ?thesis
    using assms g r0 r1 b1 d
    by (simp add: recommendSendTime_def Let_def hour_def[symmetric])
qed

lemma demo_histograms:
  "buildHistograms demo_world = \<lparr> global = createHistogram, segments = [] \<rparr>"
  by (simp add: buildHistograms_def demo_world_def)

lemma demo_best:
  "pickBestHour createHistogram createHistogram
     = \<lparr> best_hour = 0, best_score = Some (1 / 20), best_baseline = 1 / 20 \<rparr>"
  by code_simp

lemma demo_next1:
  "getNextDateForHour demo_tzdb 1767416400000 0 (Some ''America/New_York'') = Inr 1767484800000"
  by (simp add: getNextDateForHour_def demo_tzdb_def getUTCDay_def Let_def)

lemma demo_next2:
  "getNextDateForHour demo_tzdb (1767412800000 + ONE_DAY_MS) 0 (Some ''America/New_York'')
     = Inr 1767484800000"
  by (simp add: getNextDateForHour_def demo_tzdb_def getUTCDay_def Let_def ONE_DAY_MS_def)

lemma demo_find:
  "find (\<lambda>c. c_id c = ''contact-ny'') (w_contacts demo_world) = Some c2_contact"
  by (simp add: demo_world_def c2_contact_def)


lemma getNextOrder_none:
  assumes "\<not> (\<exists>s \<in> set steps. current < step_order s)"
  shows "getNextOrder current steps = current + 1"
proof -
  from assms have "filter (\<lambda>order. order > current) (map step_order steps) = []"
    by (auto simp: filter_empty_conv)
  then show ?thesis by (simp add: getNextOrder_def)
qed

lemma card_orders_decrease:
  assumes "find (\<lambda>candidate. step_order candidate = pointer) steps = Some step"
    and "pointer < nxt"
  shows "card {ord \<in> step_order ` set steps. nxt \<le> ord}
           < card {ord \<in> step_order ` set steps. pointer \<le> ord}"
proof (rule psubset_card_mono)
  show "finite {ord \<in> step_order ` set steps. pointer \<le> ord}" by simp
  from assms(1) have "pointer \<in> step_order ` set steps" by (auto simp: find_Some_iff)
  then have "pointer \<in> {ord \<in> step_order ` set steps. pointer \<le> ord}" by simp
  moreover have "pointer \<notin> {ord \<in> step_order ` set steps. nxt \<le> ord}" using assms(2) by simp
  moreover have "{ord \<in> step_order ` set steps. nxt \<le> ord} \<subseteq> {ord \<in> step_order ` set steps. pointer \<le> ord}"
    using assms(2) by auto
  ultimately show "{ord \<in> step_order ` set steps. nxt \<le> ord} \<subset> {ord \<in> step_order ` set steps. pointer \<le> ord}"
    by blast
qed

lemma bounded_enough:
  "card {ord \<in> step_order ` set (flow_steps (lr_flow run)). pointer \<le> ord} < budget
   \<Longrightarrow> processSingleRun_bounded budget env run now w pointer
         = Some (processSingleRun_loop env run now w pointer)"
proof (induction budget arbitrary: pointer)
  case 0
  then show ?case by simp
next
  case (Suc budget)
  show ?case
  proof (cases "iteration env run now pointer w")
    case (Leave outcome w')
    then show ?thesis by (simp add: processSingleRun_loop.simps[of env run now w pointer])
  next
    case (Continue nxt)
    from iteration_Continue[OF Continue] obtain step where
      f: "find (\<lambda>candidate. step_order candidate = pointer) (flow_steps (lr_flow run)) = Some step"
      and n: "nxt = getNextOrder pointer (flow_steps (lr_flow run))"
      by blast
    have "pointer < nxt" using n getNextOrder_greater by simp
    from card_orders_decrease[OF f this] Suc.prems
    have "card {ord \<in> step_order ` set (flow_steps (lr_flow run)). nxt \<le> ord} < budget" by simp
    from Suc.IH[OF this] Continue show ?thesis
      by (simp add: processSingleRun_loop.simps[of env run now w pointer])
  qed
qed


lemma find_map_update:
  assumes "\<And>r. run_id (f r) = run_id r"
  shows "find (\<lambda>r. run_id r = rid) (map (\<lambda>r. if run_id r = rid then f r else r) rs)
           = map_option f (find (\<lambda>r. run_id r = rid) rs)"
  using assms by (induction rs) simp_all

lemma runStatus_updateFlowRun:
  assumes "\<And>r. run_id (f r) = run_id r"
  shows "runStatus rid (updateFlowRun rid f w)
           = map_option (\<lambda>r. run_status (f r)) (find (\<lambda>r. run_id r = rid) (w_flowRuns w))"
  by (simp add: runStatus_def updateFlowRun_def find_map_update[OF assms] option.map_comp comp_def)

lemma getHistograms_flowRuns: "w_flowRuns (snd (getHistograms dateNow w)) = w_flowRuns w"
  by (simp add: getHistograms_def Let_def split: option.splits)

lemma recommendSendTime_flowRuns:
  "w_flowRuns (snd (recommendSendTime tzdb dateNow cid ref w)) = w_flowRuns w"
proof -
  obtain hs w1 where g: "getHistograms dateNow w = (hs, w1)" by (cases "getHistograms dateNow w")
  from getHistograms_flowRuns[of dateNow w] g have "w_flowRuns w1 = w_flowRuns w" by simp
  with g show ?thesis
    by (simp add: recommendSendTime_def Let_def split: option.splits sum.splits)
qed

text \<open>What \<open>executeSendStep\<close> leaves as the status of its run.\<close>

lemma executeSendStep_status:
  assumes "find (\<lambda>r. run_id r = run_id (lr_run run)) (w_flowRuns w) = Some row"
  shows "case executeSendStep env run now w of
           (None, w') \<Rightarrow>
             runStatus (run_id (lr_run run)) w'
               = Some (if c_email (lr_contact run) = [] \<or> c_status (lr_contact run) \<noteq> ACTIVE
                       then CANCELLED else COMPLETED)
         | (Some e, w') \<Rightarrow>
             runStatus (run_id (lr_run run)) w' = Some FAILED
             \<and> c_email (lr_contact run) \<noteq> [] \<and> c_status (lr_contact run) = ACTIVE"
proof -
  define opt where "opt =
     (if flow_useOptimizer (lr_flow run) then
        (case recommendSendTime (env_tzdb env) (env_dateNow env) (c_id (lr_contact run)) now w of
           (Inl e, w') \<Rightarrow> (None, w')
         | (Inr recommendation, w') \<Rightarrow> (rec_recommendedAt recommendation, w'))
      else (None, w))"
  obtain recommendedAt w1 where o: "opt = (recommendedAt, w1)" by (cases opt)
  have "w_flowRuns (snd opt) = w_flowRuns w"
    using recommendSendTime_flowRuns[of "env_tzdb env" "env_dateNow env" "c_id (lr_contact run)" now w]
    by (auto simp: opt_def split: prod.splits sum.splits)
  with o have w1: "w_flowRuns w1 = w_flowRuns w" by simp
  show ?thesis
    using assms o w1 unfolding executeSendStep_def opt_def[symmetric] Let_def
    by (simp add: runStatus_updateFlowRun split: sum.splits)
qed

lemma c1_due: "findDueRuns 1769776200000 5 c1_world = [c1_run]"
  by (simp add: findDueRuns_def c1_world_def demo_world_def c1_row_def c1_flow_def
        c5_trigger_step_def c1_send_step_def c1_run_def c2_contact_def c7_contact_def
        List.map_filter_def)

lemma c1_send: "executeSendStep env c1_run now w
   = (None, updateFlowRun ''run-send''
                    (\<lambda>r. r \<lparr> run_status := CANCELLED,
                             run_cancelledReason := Some ''Contact status is BOUNCED'',
                             run_completedAt := Some now \<rparr>) w)"
  by (simp add: executeSendStep_def c1_run_def c7_contact_def c1_row_def statusName_def)

lemma c1_single: "processSingleRun env c1_run now w
   = (Inr \<lparr> rr_completed = True, rr_rescheduled = False, rr_cancelled = False \<rparr>,
      updateFlowRun ''run-send''
                    (\<lambda>r. r \<lparr> run_status := CANCELLED,
                             run_cancelledReason := Some ''Contact status is BOUNCED'',
                             run_completedAt := Some now \<rparr>) w)"
proof -
  have s: "run_nextStepOrder (lr_run c1_run) = 2"
    "flow_steps (lr_flow c1_run) = [c5_trigger_step, c1_send_step]"
    by (simp_all add: c1_run_def c1_row_def c1_flow_def)
  have "iteration env c1_run now 2 w
     = Leave (Inr \<lparr> rr_completed = True, rr_rescheduled = False, rr_cancelled = False \<rparr>)
      (updateFlowRun ''run-send''
                    (\<lambda>r. r \<lparr> run_status := CANCELLED,
                             run_cancelledReason := Some ''Contact status is BOUNCED'',
                             run_completedAt := Some now \<rparr>) w)"
    by (simp add: iteration_def s c5_trigger_step_def c1_send_step_def c1_send)
  then show ?thesis unfolding processSingleRun_def s
    by (subst processSingleRun_loop.simps) simp
qed

lemma c5_steps:
  "flow_steps (lr_flow c5_run) = [c5_trigger_step, c5_delay_step, c5_send_step]"
  "flow_steps (lr_flow c5_zero_run) = [c5_trigger_step, c5_zero_step, c5_send_step]"
  "flow_steps (lr_flow c5_absent_run) = [c5_trigger_step, c5_absent_step, c5_send_step]"
  "flow_delayMinutes (lr_flow c5_run) = Some 45"
  "flow_delayMinutes (lr_flow c5_zero_run) = None"
  "flow_delayMinutes (lr_flow c5_absent_run) = None"
  "run_nextStepOrder (lr_run c5_run) = 2"
  "run_id (lr_run c5_run) = ''run-delay''"
  by (simp_all add: c5_run_def c5_zero_run_def c5_absent_run_def c5_flow_def c5_row_def)

lemma c5_orders:
  "step_order c5_trigger_step = 1" "step_order c5_delay_step = 2" "step_order c5_send_step = 3"
  "step_order c5_zero_step = 2" "step_order c5_absent_step = 2"
  "step_type c5_trigger_step = TRIGGER" "step_type c5_delay_step = DELAY"
  "step_type c5_send_step = SEND_TEMPLATE" "step_type c5_zero_step = DELAY"
  "step_type c5_absent_step = DELAY"
  by (simp_all add: c5_trigger_step_def c5_delay_step_def c5_send_step_def c5_zero_step_def
        c5_absent_step_def)


lemma c1_active_send:
  "executeSendStep demo_env c1_active_run now c1_world
     = (None,
        updateFlowRun ''run-send''
          (\<lambda>r. r \<lparr> run_status := COMPLETED, run_completedAt := Some now,
                   run_nextStepOrder := 3 \<rparr>)
          (c1_world \<lparr> w_messages :=
               [\<lparr> msg_contactId = ''contact-ny'', msg_templateId = ''template-2'',
                  msg_resendMessageId = Some ''resend-123'', msg_status = MSG_SENT,
                  msg_scheduledSendAt = None, msg_sentAt = Some 1769776200000,
                  msg_flowRunId = Some ''run-send'', msg_outcomeClickedAt = None \<rparr>],
             w_contacts :=
               [c2_contact \<lparr> c_lastMessageSentAt := Some 1769776200000 \<rparr>, c7_contact] \<rparr>))"
  by (simp add: executeSendStep_def c1_active_run_def c1_row_def c1_flow_def c2_contact_def
        c7_contact_def demo_env_def c1_world_def demo_world_def getNextOrder_def
        c5_trigger_step_def c1_send_step_def Let_def)

lemma c1_failing_send:
  "executeSendStep failing_env c1_active_run now c1_world
     = (Some (ThrownResendError ''Invalid Resend API key''),
        updateFlowRun ''run-send''
          (\<lambda>r. r \<lparr> run_status := FAILED,
                   run_cancelledReason := Some ''Invalid Resend API key'' \<rparr>) c1_world)"
  by (simp add: executeSendStep_def c1_active_run_def c1_row_def c1_flow_def c2_contact_def
        failing_env_def demo_env_def thrownMessage_def Let_def)

lemma c1_active_steps:
  "flow_steps (lr_flow c1_active_run) = [c5_trigger_step, c1_send_step]"
  "run_nextStepOrder (lr_run c1_active_run) = 2"
  by (simp_all add: c1_active_run_def c1_flow_def c1_row_def)

lemma c1_iterations:
  "iteration demo_env c1_active_run now 2 c1_world
     = Leave (Inr \<lparr> rr_completed = True, rr_rescheduled = False, rr_cancelled = False \<rparr>)
         (snd (executeSendStep demo_env c1_active_run now c1_world))"
  "iteration failing_env c1_active_run now 2 c1_world
     = Leave (Inl (ThrownResendError ''Invalid Resend API key''))
         (snd (executeSendStep failing_env c1_active_run now c1_world))"
  by (simp_all add: iteration_def c1_active_steps c5_trigger_step_def c1_send_step_def
        c1_active_send c1_failing_send)

(*MARK:LEMMAS*)

section \<open>The claims\<close>

text \<open>
  C3, as the code has it. A histogram with no send at all has the prior 0.05. A histogram
  with sends and no click in any bucket has the prior 0, so the score of every hour is
  \<open>\<alpha> \<sdot> prior / (sends[h] + \<alpha>)\<close> with \<open>\<alpha> = 5\<close>, and that is 0 for every hour:
  it does not decrease as \<open>sends[h]\<close> grows. For a prior above 0 the score of a bucket
  without clicks does decrease strictly as its sends grow.
\<close>

theorem C3_prior_and_zero_click_scores:
  "(foldl (\<lambda>s v. s + v) 0 (sends h) = 0 \<longrightarrow> computePrior h = 5 / 100)
   \<and> (foldl (\<lambda>s v. s + v) 0 (sends h) \<noteq> 0 \<and> (\<forall>v \<in> set (clicks h). v = 0) \<longrightarrow>
        computePrior h = 0
        \<and> (\<forall>hour. scoreHistogram hour h (computePrior h)
                     = SMOOTHING_ALPHA * computePrior h
                         / (of_nat (countAt (sends h) hour) + SMOOTHING_ALPHA)
                 \<and> scoreHistogram hour h (computePrior h) = 0))
   \<and> (\<forall>prior i j. 0 < prior \<and> countAt (clicks h) i = 0 \<and> countAt (clicks h) j = 0
          \<and> countAt (sends h) i < countAt (sends h) j
        \<longrightarrow> scoreHistogram j h prior < scoreHistogram i h prior)"
proof (intro conjI impI allI)
  assume "foldl (\<lambda>s v. s + v) 0 (sends h) = 0"
  then show "computePrior h = 5 / 100" by (simp add: computePrior_def Let_def)
next
  assume a: "foldl (\<lambda>s v. s + v) 0 (sends h) \<noteq> 0 \<and> (\<forall>v \<in> set (clicks h). v = 0)"
  then show p: "computePrior h = 0" using computePrior_zero_clicks by blast
  fix hour
  from a have z: "countAt (clicks h) hour = 0" using countAt_zero by blast
  show "scoreHistogram hour h (computePrior h)
          = SMOOTHING_ALPHA * computePrior h / (of_nat (countAt (sends h) hour) + SMOOTHING_ALPHA)"
    using z by (simp add: scoreHistogram_def)
  show "scoreHistogram hour h (computePrior h) = 0"
    using z p by (simp add: scoreHistogram_def)
next
  fix prior :: rat and i j :: nat
  assume "0 < prior \<and> countAt (clicks h) i = 0 \<and> countAt (clicks h) j = 0
          \<and> countAt (sends h) i < countAt (sends h) j"
  then show "scoreHistogram j h prior < scoreHistogram i h prior"
    using score_decreasing by blast
qed

theorem C3_witness:
  "computePrior createHistogram = 5 / 100
   \<and> scoreHistogram 1 c3_histogram (computePrior c3_histogram) = 0
   \<and> scoreHistogram 1 c3_histogram (1 / 20) < scoreHistogram 0 c3_histogram (1 / 20)"
proof -
  have a: "foldl (\<lambda>s v. s + v) 0 (sends createHistogram) = 0"
    by (simp add: createHistogram_def foldl_plus_sum)
  have b: "foldl (\<lambda>s v. s + v) 0 (sends c3_histogram) \<noteq> 0
           \<and> (\<forall>v \<in> set (clicks c3_histogram). v = 0)"
    by (simp add: c3_histogram_def foldl_plus_sum)
  have c: "(0::rat) < 1 / 20 \<and> countAt (clicks c3_histogram) 0 = 0
           \<and> countAt (clicks c3_histogram) 1 = 0
           \<and> countAt (sends c3_histogram) 0 < countAt (sends c3_histogram) 1"
    by (simp add: c3_histogram_def countAt_def)
  from C3_prior_and_zero_click_scores[of createHistogram] a
  have 1: "computePrior createHistogram = 5 / 100" by blast
  from C3_prior_and_zero_click_scores[of c3_histogram] b
  have 2: "scoreHistogram 1 c3_histogram (computePrior c3_histogram) = 0" by blast
  from C3_prior_and_zero_click_scores[of c3_histogram] c
  have 3: "scoreHistogram 1 c3_histogram (1 / 20) < scoreHistogram 0 c3_histogram (1 / 20)"
    by blast
  from 1 2 3 show ?thesis by blast
qed

text \<open>
  C3 as the specification states it fails: with sends in hours 0 and 1, more of them in
  hour 1, and no click anywhere, the score of hour 1 is not below the score of hour 0.
\<close>

theorem C3_counterexample:
  "foldl (\<lambda>s v. s + v) 0 (sends c3_histogram) \<noteq> 0
   \<and> clicks c3_histogram = replicate 168 0
   \<and> countAt (sends c3_histogram) 0 < countAt (sends c3_histogram) 1
   \<and> \<not> (scoreHistogram 1 c3_histogram (computePrior c3_histogram)
          < scoreHistogram 0 c3_histogram (computePrior c3_histogram))"
  by (simp add: c3_histogram_def foldl_plus_sum countAt_def scoreHistogram_def computePrior_def
        Let_def sum_list_replicate SMOOTHING_ALPHA_def)

text \<open>
  C6. A contact whose tags contain "synthetic" and whose status is COMPLAINED is scored
  HIGH with score 98, is not to be suppressed, and its reasons are "Complaint reported"
  and then "Synthetic contact safeguard".
\<close>

theorem C6_synthetic_complained:
  assumes "''synthetic'' \<in> set (in_tags input)" and "in_status input = COMPLAINED"
  shows "res_riskLevel (computeHygieneScore input now) = HIGH
       \<and> res_score (computeHygieneScore input now) = 98
       \<and> res_shouldSuppress (computeHygieneScore input now) = False
       \<and> res_reasons (computeHygieneScore input now)
           = [''Complaint reported'', ''Synthetic contact safeguard'']"
  using assms by (simp add: computeHygieneScore_def Let_def)

theorem C6_witness:
  "''synthetic'' \<in> set (in_tags c6_input) \<and> in_status c6_input = COMPLAINED
   \<and> res_riskLevel (computeHygieneScore c6_input 0) = HIGH
   \<and> res_score (computeHygieneScore c6_input 0) = 98
   \<and> res_shouldSuppress (computeHygieneScore c6_input 0) = False
   \<and> res_reasons (computeHygieneScore c6_input 0)
       = [''Complaint reported'', ''Synthetic contact safeguard'']"
proof -
  have h1: "''synthetic'' \<in> set (in_tags c6_input)" by (simp add: c6_input_def)
  have h2: "in_status c6_input = COMPLAINED" by (simp add: c6_input_def)
  from C6_synthetic_complained[OF h1 h2, of 0] h1 h2 show ?thesis by blast
qed

text \<open>
  C9. The risk level is HIGH exactly for the statuses BOUNCED, COMPLAINED and SUPPRESSED.
  For any other status the level is LOW or MEDIUM and the score is one of 20, 25, 50, 55
  and 65, hence between 0 and 100.
\<close>

theorem C9_high_iff_status:
  "(res_riskLevel (computeHygieneScore input now) = HIGH
      \<longleftrightarrow> in_status input \<in> {BOUNCED, COMPLAINED, SUPPRESSED})
   \<and> (in_status input \<notin> {BOUNCED, COMPLAINED, SUPPRESSED} \<longrightarrow>
        res_riskLevel (computeHygieneScore input now) \<in> {LOW, MEDIUM}
        \<and> res_score (computeHygieneScore input now) \<in> {20, 25, 50, 55, 65}
        \<and> 0 \<le> res_score (computeHygieneScore input now)
        \<and> res_score (computeHygieneScore input now) \<le> 100)"
  by (cases "in_status input") (simp_all add: computeHygieneScore_def Let_def)

theorem C9_witness:
  "in_status c9_input \<notin> {BOUNCED, COMPLAINED, SUPPRESSED}
   \<and> res_riskLevel (computeHygieneScore c9_input 86400000) \<noteq> HIGH
   \<and> res_riskLevel (computeHygieneScore c9_input 86400000) \<in> {LOW, MEDIUM}
   \<and> res_score (computeHygieneScore c9_input 86400000) \<in> {20, 25, 50, 55, 65}"
proof -
  have h: "in_status c9_input \<notin> {BOUNCED, COMPLAINED, SUPPRESSED}"
    by (simp add: c9_input_def)
  from C9_high_iff_status[of c9_input 86400000] h show ?thesis by blast
qed



text \<open>
  C2, at an input where the code breaks it. The contact is active, lives in New York and
  was last sent to at T = 1767412800000 (Saturday 04:00 UTC); the reference time is
  T + 1 hour = 1767416400000 and no message has been recorded, so hour 0 of the week wins.
  The recommendation is throttled, and its instant is 1767484800000, Sunday 00:00 UTC:
  that is T + 20 hours, before T + 24 hours.
\<close>

theorem C2_cooldown_broken_by_timezone:
  "find (\<lambda>c. c_id c = ''contact-ny'') (w_contacts demo_world) = Some c2_contact
   \<and> c_status c2_contact = ACTIVE
   \<and> c_lastMessageSentAt c2_contact = Some 1767412800000
   \<and> (1767416400000 :: int) = 1767412800000 + 3600000
   \<and> map_sum id rec_throttled
        (fst (recommendSendTime demo_tzdb 1767416400000 ''contact-ny''
                1767416400000 demo_world)) = Inr True
   \<and> map_sum id rec_recommendedAt
        (fst (recommendSendTime demo_tzdb 1767416400000 ''contact-ny''
                1767416400000 demo_world)) = Inr (Some 1767484800000)
   \<and> (1767484800000 :: int) < 1767412800000 + 24 * 3600000"
proof -
  have c: "c_status c2_contact = ACTIVE" "c_lastMessageSentAt c2_contact = Some 1767412800000"
    "c_tags c2_contact = []" "c_timezone c2_contact = Some ''America/New_York''"
    by (simp_all add: c2_contact_def)
  have h: "getHistograms 1767416400000 demo_world
            = (\<lparr> global = createHistogram, segments = [] \<rparr>,
               demo_world \<lparr> w_histogramCache :=
                 Some \<lparr> cache_data = \<lparr> global = createHistogram, segments = [] \<rparr>,
                        cache_fetchedAt = 1767416400000 \<rparr> \<rparr>)"
  proof -
    have "w_histogramCache demo_world = None" by (simp add: demo_world_def)
    then show ?thesis by (simp add: getHistograms_def demo_histograms Let_def)
  qed
  have g: "getSegmentTag [] = None" by (simp add: getSegmentTag_def)
  have o: "(1767484800000::int) < 1767412800000 + ONE_DAY_MS"
    "(1767416400000::int) < 1767412800000 + ONE_DAY_MS"
    by (simp_all add: ONE_DAY_MS_def)
  have r: "fst (recommendSendTime demo_tzdb 1767416400000 ''contact-ny'' 1767416400000 demo_world)
     = Inr \<lparr> rec_recommendedHour = Some 0, rec_recommendedAt = Some 1767484800000,
              rec_score = Some (1 / 20), rec_baselineScore = 1 / 20,
              rec_reason = ''Global recommendation'' @ BULLET @ ''throttled 24h cooldown'',
              rec_throttled = True \<rparr>"
    by (simp add: recommendSendTime_def demo_find c h g demo_best demo_next1 demo_next2 o Let_def)
  show ?thesis using c demo_find r by simp
qed

text \<open>
  C7. \<open>recommendSendTime\<close> fails with NotFound exactly when no contact has the id. For a
  contact that exists and is not ACTIVE it returns the recommendation with no hour, no
  instant and score 0, and leaves the store and the histogram cache as they were; the
  result is the same whatever the cache and the recorded messages are.
\<close>

theorem C7_not_found_and_inactive:
  "(fst (recommendSendTime tzdb dateNow cid ref w) = Inl NotFound
      \<longleftrightarrow> cid \<notin> c_id ` set (w_contacts w))
   \<and> (\<forall>contact. find (\<lambda>c. c_id c = cid) (w_contacts w) = Some contact
         \<and> c_status contact \<noteq> ACTIVE \<longrightarrow>
        recommendSendTime tzdb dateNow cid ref w
          = (Inr \<lparr> rec_recommendedHour = None, rec_recommendedAt = None, rec_score = Some 0,
                   rec_baselineScore = 0, rec_reason = ''Contact not active'',
                   rec_throttled = False \<rparr>, w)
        \<and> (\<forall>cache messages.
              fst (recommendSendTime tzdb dateNow cid ref
                     (w \<lparr> w_histogramCache := cache, w_messages := messages \<rparr>))
                = fst (recommendSendTime tzdb dateNow cid ref w)))"
proof (intro conjI allI impI)
  show "fst (recommendSendTime tzdb dateNow cid ref w) = Inl NotFound
      \<longleftrightarrow> cid \<notin> c_id ` set (w_contacts w)"
  proof (cases "find (\<lambda>c. c_id c = cid) (w_contacts w)")
    case None
    then have "cid \<notin> c_id ` set (w_contacts w)" by (auto simp: find_None_iff)
    with None show ?thesis by (simp add: recommendSendTime_def)
  next
    case (Some contact)
    then have "cid \<in> c_id ` set (w_contacts w)" by (auto simp: find_Some_iff)
    with recommend_found[OF Some] show ?thesis by simp
  qed
next
  fix contact
  assume a: "find (\<lambda>c. c_id c = cid) (w_contacts w) = Some contact \<and> c_status contact \<noteq> ACTIVE"
  then show "recommendSendTime tzdb dateNow cid ref w
          = (Inr \<lparr> rec_recommendedHour = None, rec_recommendedAt = None, rec_score = Some 0,
                   rec_baselineScore = 0, rec_reason = ''Contact not active'',
                   rec_throttled = False \<rparr>, w)"
    by (simp add: recommendSendTime_def)
  fix cache messages
  from a show "fst (recommendSendTime tzdb dateNow cid ref
                     (w \<lparr> w_histogramCache := cache, w_messages := messages \<rparr>))
                = fst (recommendSendTime tzdb dateNow cid ref w)"
    by (simp add: recommendSendTime_def)
qed

theorem C7_witness:
  "''missing'' \<notin> c_id ` set (w_contacts demo_world)
   \<and> fst (recommendSendTime demo_tzdb 0 ''missing'' 0 demo_world) = Inl NotFound
   \<and> find (\<lambda>c. c_id c = ''contact-b'') (w_contacts demo_world) = Some c7_contact
   \<and> c_status c7_contact \<noteq> ACTIVE
   \<and> recommendSendTime demo_tzdb 0 ''contact-b'' 0 demo_world
       = (Inr \<lparr> rec_recommendedHour = None, rec_recommendedAt = None, rec_score = Some 0,
                rec_baselineScore = 0, rec_reason = ''Contact not active'',
                rec_throttled = False \<rparr>, demo_world)"
proof -
  have h1: "''missing'' \<notin> c_id ` set (w_contacts demo_world)"
    by (simp add: demo_world_def c2_contact_def c7_contact_def)
  have h2: "find (\<lambda>c. c_id c = ''contact-b'') (w_contacts demo_world) = Some c7_contact
            \<and> c_status c7_contact \<noteq> ACTIVE"
    by (simp add: demo_world_def c2_contact_def c7_contact_def)
  from C7_not_found_and_inactive[of demo_tzdb 0 "''missing''" 0 demo_world] h1
  have 1: "fst (recommendSendTime demo_tzdb 0 ''missing'' 0 demo_world) = Inl NotFound"
    by blast
  from C7_not_found_and_inactive[of demo_tzdb 0 "''contact-b''" 0 demo_world] h2
  have 2: "recommendSendTime demo_tzdb 0 ''contact-b'' 0 demo_world
       = (Inr \<lparr> rec_recommendedHour = None, rec_recommendedAt = None, rec_score = Some 0,
                rec_baselineScore = 0, rec_reason = ''Contact not active'',
                rec_throttled = False \<rparr>, demo_world)"
    by blast
  from h1 h2 1 2 show ?thesis by blast
qed

text \<open>
  C10. \<open>getNextOrder\<close> returns an order greater than its argument, so every pass of the
  walk that continues does so with a greater pointer; and the walk is left, by a return
  or a throw, within (number of distinct step orders + 1) passes through the loop body:
  with that budget the bounded loop gives the result of the loop.
\<close>

theorem C10_walk_terminates:
  "current < getNextOrder current steps
   \<and> (\<forall>nxt. iteration env run now pointer w = Continue nxt \<longrightarrow> pointer < nxt)
   \<and> (card (step_order ` set (flow_steps (lr_flow run))) + 1 \<le> budget \<longrightarrow>
        processSingleRun_bounded budget env run now w pointer
          = Some (processSingleRun_loop env run now w pointer))"
proof (intro conjI allI impI)
  show "current < getNextOrder current steps" by (rule getNextOrder_greater)
next
  fix nxt assume "iteration env run now pointer w = Continue nxt"
  from iteration_Continue(2)[OF this] show "pointer < nxt" using getNextOrder_greater by simp
next
  assume b: "card (step_order ` set (flow_steps (lr_flow run))) + 1 \<le> budget"
  have "card {ord \<in> step_order ` set (flow_steps (lr_flow run)). pointer \<le> ord}
          \<le> card (step_order ` set (flow_steps (lr_flow run)))"
    by (rule card_mono) auto
  with b have "card {ord \<in> step_order ` set (flow_steps (lr_flow run)). pointer \<le> ord} < budget"
    by simp
  then show "processSingleRun_bounded budget env run now w pointer
          = Some (processSingleRun_loop env run now w pointer)"
    by (rule bounded_enough)
qed

theorem C10_witness:
  "iteration demo_env c5_zero_run 0 1 demo_world = Continue 2 \<and> (1::int) < 2
   \<and> card (step_order ` set (flow_steps (lr_flow c5_zero_run))) + 1 \<le> 4
   \<and> processSingleRun_bounded 4 demo_env c5_zero_run 0 demo_world 1
       = Some (processSingleRun_loop demo_env c5_zero_run 0 demo_world 1)"
proof -
  have h1: "iteration demo_env c5_zero_run 0 1 demo_world = Continue 2"
    by (simp add: iteration_def c5_steps c5_orders getNextOrder_def)
  have h2: "card (step_order ` set (flow_steps (lr_flow c5_zero_run))) + 1 \<le> 4"
    by (simp add: c5_steps c5_orders)
  from C10_walk_terminates[where env = demo_env and run = c5_zero_run and now = 0
         and pointer = 1 and w = demo_world and budget = 4] h1 h2
  show ?thesis by simp
qed



text \<open>
  C1, as the code has it. When the step at the pointer of a run is a SEND_TEMPLATE step,
  processing the run ends its tick with the run in one of the statuses COMPLETED, FAILED
  and CANCELLED. It is CANCELLED exactly when the contact has no email or is not ACTIVE.
  When it is COMPLETED the summary counts one more completed run and nothing else; when
  it is FAILED the summary counts one more failed run and nothing else.
\<close>

theorem C1_send_step_outcome:
  assumes "find (\<lambda>candidate. step_order candidate = run_nextStepOrder (lr_run run))
             (flow_steps (lr_flow run)) = Some step"
    and "step_type step = SEND_TEMPLATE"
    and "run_id (lr_run run) \<in> run_id ` set (w_flowRuns w)"
  shows "runStatus (run_id (lr_run run)) (snd (tickRun env now run (summary, w)))
           \<in> {Some COMPLETED, Some FAILED, Some CANCELLED}
       \<and> (runStatus (run_id (lr_run run)) (snd (tickRun env now run (summary, w))) = Some CANCELLED
            \<longleftrightarrow> c_email (lr_contact run) = [] \<or> c_status (lr_contact run) \<noteq> ACTIVE)
       \<and> (runStatus (run_id (lr_run run)) (snd (tickRun env now run (summary, w))) = Some COMPLETED
            \<longrightarrow> fst (tickRun env now run (summary, w))
                  = summary \<lparr> ps_completed := ps_completed summary + 1 \<rparr>)
       \<and> (runStatus (run_id (lr_run run)) (snd (tickRun env now run (summary, w))) = Some FAILED
            \<longrightarrow> fst (tickRun env now run (summary, w))
                  = summary \<lparr> ps_failed := ps_failed summary + 1 \<rparr>)"
proof -
  let ?rid = "run_id (lr_run run)"
  from assms(3) obtain row where row: "find (\<lambda>r. run_id r = ?rid) (w_flowRuns w) = Some row"
    by (cases "find (\<lambda>r. run_id r = ?rid) (w_flowRuns w)") (auto simp: find_None_iff)
  obtain t w' where e: "executeSendStep env run now w = (t, w')"
    by (cases "executeSendStep env run now w")
  note st = executeSendStep_status[OF row, of env now, unfolded e prod.case]
  show ?thesis
  proof (cases t)
    case None
    have "iteration env run now (run_nextStepOrder (lr_run run)) w
            = Leave (Inr \<lparr> rr_completed = True, rr_rescheduled = False, rr_cancelled = False \<rparr>) w'"
      using assms(1,2) e None by (simp add: iteration_def)
    then have "processSingleRun env run now w
            = (Inr \<lparr> rr_completed = True, rr_rescheduled = False, rr_cancelled = False \<rparr>, w')"
      unfolding processSingleRun_def by (subst processSingleRun_loop.simps) simp
    then have t: "tickRun env now run (summary, w)
            = (summary \<lparr> ps_completed := ps_completed summary + 1 \<rparr>, w')"
      by (simp add: tickRun_def)
    from st None have "runStatus ?rid w'
               = Some (if c_email (lr_contact run) = [] \<or> c_status (lr_contact run) \<noteq> ACTIVE
                       then CANCELLED else COMPLETED)"
      by simp
    then show ?thesis unfolding t by simp
  next
    case (Some err)
    have "iteration env run now (run_nextStepOrder (lr_run run)) w = Leave (Inl err) w'"
      using assms(1,2) e Some by (simp add: iteration_def)
    then have "processSingleRun env run now w = (Inl err, w')"
      unfolding processSingleRun_def by (subst processSingleRun_loop.simps) simp
    then have t: "tickRun env now run (summary, w)
            = (summary \<lparr> ps_failed := ps_failed summary + 1 \<rparr>,
               updateFlowRun ?rid
                 (\<lambda>r. r \<lparr> run_status := FAILED,
                          run_cancelledReason :=
                            Some (thrownMessage err ''Flow processing failed'') \<rparr>)
                 w')"
      by (simp add: tickRun_def)
    from st Some have f: "runStatus ?rid w' = Some FAILED"
      and a: "c_email (lr_contact run) \<noteq> [] \<and> c_status (lr_contact run) = ACTIVE"
      by simp_all
    from f have "find (\<lambda>r. run_id r = ?rid) (w_flowRuns w') \<noteq> None"
      by (auto simp: runStatus_def)
    then have "runStatus ?rid (updateFlowRun ?rid
                 (\<lambda>r. r \<lparr> run_status := FAILED,
                          run_cancelledReason :=
                            Some (thrownMessage err ''Flow processing failed'') \<rparr>)
                 w') = Some FAILED"
      by (auto simp: runStatus_updateFlowRun)
    with a show ?thesis unfolding t by simp
  qed
qed

theorem C1_witness:
  "find (\<lambda>candidate. step_order candidate = run_nextStepOrder (lr_run c1_active_run))
     (flow_steps (lr_flow c1_active_run)) = Some c1_send_step
   \<and> step_type c1_send_step = SEND_TEMPLATE
   \<and> run_id (lr_run c1_active_run) \<in> run_id ` set (w_flowRuns c1_world)
   \<and> runStatus ''run-send''
        (snd (tickRun demo_env 1769776200000 c1_active_run (c1_summary, c1_world)))
       = Some COMPLETED
   \<and> fst (tickRun demo_env 1769776200000 c1_active_run (c1_summary, c1_world))
       = c1_summary \<lparr> ps_completed := 1 \<rparr>
   \<and> runStatus ''run-send''
        (snd (tickRun failing_env 1769776200000 c1_active_run (c1_summary, c1_world)))
       = Some FAILED
   \<and> fst (tickRun failing_env 1769776200000 c1_active_run (c1_summary, c1_world))
       = c1_summary \<lparr> ps_failed := 1 \<rparr>"
proof -
  have h: "find (\<lambda>candidate. step_order candidate = run_nextStepOrder (lr_run c1_active_run))
             (flow_steps (lr_flow c1_active_run)) = Some c1_send_step"
    "step_type c1_send_step = SEND_TEMPLATE"
    "run_id (lr_run c1_active_run) \<in> run_id ` set (w_flowRuns c1_world)"
    by (simp_all add: c1_active_run_def c1_row_def c1_flow_def c5_trigger_step_def
          c1_send_step_def c1_world_def)
  have c: "c_email (lr_contact c1_active_run) \<noteq> []"
    "c_status (lr_contact c1_active_run) = ACTIVE"
    "run_id (lr_run c1_active_run) = ''run-send''"
    "ps_completed c1_summary = 0" "ps_failed c1_summary = 0"
    by (simp_all add: c1_active_run_def c2_contact_def c1_row_def c1_summary_def)
  have n: "run_nextStepOrder (lr_run c1_active_run) = 2"
    by (simp add: c1_active_run_def c1_row_def)
  have p: "processSingleRun failing_env c1_active_run 1769776200000 c1_world
             = (Inl (ThrownResendError ''Invalid Resend API key''),
                updateFlowRun ''run-send''
                  (\<lambda>r. r \<lparr> run_status := FAILED,
                           run_cancelledReason := Some ''Invalid Resend API key'' \<rparr>) c1_world)"
    unfolding processSingleRun_def n
    by (subst processSingleRun_loop.simps) (simp add: c1_iterations c1_failing_send)
  have f: "runStatus ''run-send''
        (snd (tickRun failing_env 1769776200000 c1_active_run (c1_summary, c1_world)))
       = Some FAILED"
  proof -
    have t: "snd (tickRun failing_env 1769776200000 c1_active_run (c1_summary, c1_world))
            = updateFlowRun ''run-send''
                (\<lambda>r. r \<lparr> run_status := FAILED,
                         run_cancelledReason := Some ''Invalid Resend API key'' \<rparr>)
                (updateFlowRun ''run-send''
                   (\<lambda>r. r \<lparr> run_status := FAILED,
                            run_cancelledReason := Some ''Invalid Resend API key'' \<rparr>) c1_world)"
      by (simp add: tickRun_def p c thrownMessage_def)
    show ?thesis unfolding t
      by (simp add: runStatus_def updateFlowRun_def c1_world_def c1_row_def)
  qed
  note t1 = C1_send_step_outcome[where env = demo_env and now = 1769776200000
                and summary = c1_summary, OF h]
  note t2 = C1_send_step_outcome[where env = failing_env and now = 1769776200000
                and summary = c1_summary, OF h]
  have q: "processSingleRun demo_env c1_active_run 1769776200000 c1_world
             = (Inr \<lparr> rr_completed = True, rr_rescheduled = False, rr_cancelled = False \<rparr>,
                snd (executeSendStep demo_env c1_active_run 1769776200000 c1_world))"
    unfolding processSingleRun_def n
    by (subst processSingleRun_loop.simps) (simp add: c1_iterations)
  have 1: "runStatus ''run-send''
        (snd (tickRun demo_env 1769776200000 c1_active_run (c1_summary, c1_world)))
       = Some COMPLETED"
  proof -
    have t: "snd (tickRun demo_env 1769776200000 c1_active_run (c1_summary, c1_world))
               = snd (executeSendStep demo_env c1_active_run 1769776200000 c1_world)"
      by (simp add: tickRun_def q)
    show ?thesis unfolding t c1_active_send
      by (simp add: runStatus_def updateFlowRun_def c1_world_def c1_row_def)
  qed
  with t1 c have 2: "fst (tickRun demo_env 1769776200000 c1_active_run (c1_summary, c1_world))
       = c1_summary \<lparr> ps_completed := 1 \<rparr>"
    by simp
  from t2 c f have 3: "fst (tickRun failing_env 1769776200000 c1_active_run (c1_summary, c1_world))
       = c1_summary \<lparr> ps_failed := 1 \<rparr>"
    by simp
  from h 1 2 f 3 show ?thesis by simp
qed

text \<open>
  C1 as the specification states it fails: a due run whose step is SEND_TEMPLATE and whose
  contact has bounced is left CANCELLED by the tick, neither COMPLETED nor FAILED, and the
  summary counts it as completed.
\<close>

theorem C1_counterexample:
  "runStatus ''run-send'' c1_world = Some PENDING
   \<and> run_scheduledAt c1_row \<le> 1769776200000
   \<and> map_option step_type
        (find (\<lambda>candidate. step_order candidate = run_nextStepOrder c1_row)
           (flow_steps c1_flow))
       = Some SEND_TEMPLATE
   \<and> runStatus ''run-send''
        (snd (processDueFlowRuns (\<lambda>rid. demo_env)
                \<lparr> pf_now = Some 1769776200000, pf_limit = Some 5 \<rparr> 0 c1_world))
       = Some CANCELLED
   \<and> fst (processDueFlowRuns (\<lambda>rid. demo_env)
                \<lparr> pf_now = Some 1769776200000, pf_limit = Some 5 \<rparr> 0 c1_world)
       = \<lparr> ps_evaluated = 1, ps_completed = 1, ps_rescheduled = 0, ps_cancelled = 0,
           ps_failed = 0 \<rparr>"
proof -
  have a: "runStatus ''run-send'' c1_world = Some PENDING"
    "run_scheduledAt c1_row \<le> 1769776200000"
    "map_option step_type
        (find (\<lambda>candidate. step_order candidate = run_nextStepOrder c1_row)
           (flow_steps c1_flow))
       = Some SEND_TEMPLATE"
    by (simp_all add: runStatus_def c1_world_def c1_row_def c1_flow_def c5_trigger_step_def
          c1_send_step_def)
  have p: "processDueFlowRuns (\<lambda>rid. demo_env)
                \<lparr> pf_now = Some 1769776200000, pf_limit = Some 5 \<rparr> 0 c1_world
     = (\<lparr> ps_evaluated = 1, ps_completed = 1, ps_rescheduled = 0, ps_cancelled = 0,
           ps_failed = 0 \<rparr>,
        updateFlowRun ''run-send''
                    (\<lambda>r. r \<lparr> run_status := CANCELLED,
                             run_cancelledReason := Some ''Contact status is BOUNCED'',
                             run_completedAt := Some 1769776200000 \<rparr>) c1_world)"
    by (simp add: processDueFlowRuns_def c1_due tickRun_def c1_single)
  have "runStatus ''run-send'' (updateFlowRun ''run-send''
                    (\<lambda>r. r \<lparr> run_status := CANCELLED,
                             run_cancelledReason := Some ''Contact status is BOUNCED'',
                             run_completedAt := Some 1769776200000 \<rparr>) c1_world) = Some CANCELLED"
    by (simp add: runStatus_updateFlowRun c1_world_def c1_row_def)
  with a p show ?thesis by simp
qed

(*MARK:CLAIMS*)

end
